theory Spec2Isabelle
  imports Main "HOL-Library.AList"
begin

section \<open>Data model (models.py)\<close>

text \<open>
  The records of \<^verbatim>\<open>models.py\<close> are pydantic models. A pydantic model keeps the values of
  its declared fields in the instance dictionary \<^verbatim>\<open>__dict__\<close>, and both
  \<^verbatim>\<open>load_and_annotate_study\<close> and the \<^verbatim>\<open>ome_metadata\<close> property read and write that
  dictionary directly. A study and an image are therefore modelled by their
  \<^verbatim>\<open>__dict__\<close>: a map from attribute names to Python values. Declared fields and
  attributes attached later live in the same map, as they do in the source.

  The list of representations of an image is a list object that the merge extends in
  place, and two images may hold the same list object. The instance dictionary of an
  image therefore holds the address of its list, and the lists live in a heap. Studies
  and images themselves are values: every image id has an image object of its own.
\<close>

datatype error =
    Raised string      \<comment> \<open>whatever a collaborator or a library function raises\<close>
  | AttributeError
  | TypeError
  | IndexError
  | AssertionError

datatype uri = UStr string | UList "string list"   \<comment> \<open>\<^verbatim>\<open>Union[str, List[str]]\<close>\<close>

text \<open>
  The values of a free-form \<^verbatim>\<open>Dict\<close> field: None, strings, integers, lists and
  dictionaries whose keys are strings or integers. A string of such a value is the list of
  its code points, since its serialisation depends on them.
\<close>

type_synonym pystr = "nat list"

datatype dkey = KStr pystr | KInt int

datatype pv =
    VNone
  | VStr pystr
  | VInt int
  | VList "pv list"
  | VDict "(dkey \<times> pv) list"

record BIAImageRepresentation =
  rep_accession_id :: string
  rep_image_id :: string
  rep_uri :: uri
  rep_size :: int
  rep_type :: "string option"
  rep_dimensions :: "string option"
  rep_attributes :: "(dkey \<times> pv) list option"

record BIAFileRepresentation =
  frep_accession_id :: string
  frep_file_id :: string
  frep_uri :: uri
  frep_size :: int

record BIAFile =
  file_id :: string
  file_original_relpath :: string
  file_original_size :: int
  file_attributes :: "(dkey \<times> pv) list"
  file_representations :: "BIAFileRepresentation list"

record FileReference =
  fref_id :: pystr
  fref_name :: pystr
  fref_uri :: pystr
  fref_size_in_bytes :: "int option"
  fref_attributes :: "(dkey \<times> pv) list"

record BIAImageAlias =
  alias_name :: string
  alias_accession_id :: string
  alias_image_id :: string

record Author =
  author_name :: string

record StudyAnnotation =
  sa_accession_id :: string
  sa_key :: string
  sa_value :: string

record ImageAnnotation =
  ia_accession_id :: string
  ia_image_id :: string
  ia_key :: string
  ia_value :: string

text \<open>The parsed OME document, as \<^verbatim>\<open>ome_types.from_xml\<close> returns it: an object, never None.\<close>

datatype OME = OME string

text \<open>
  The values an attribute of a study or of an image can hold: the values of the declared
  fields, the \<^verbatim>\<open>str\<close> an annotation stores and the cached OME document. \<open>PReps a\<close> is the
  list object at address \<open>a\<close> of the heap.
\<close>

type_synonym addr = nat

type_synonym heap = "addr \<Rightarrow> BIAImageRepresentation list"

datatype pyval =
    PNone
  | PStr string
  | PPath string
  | PDict "(dkey \<times> pv) list"
  | PReps addr
  | POME OME
  | PImages "(string \<times> (string \<Rightarrow> pyval option)) list"
  | PAuthors "Author list"
  | PFileRefs "(string \<times> FileReference) list"
  | PFiles "(string \<times> BIAFile) list"
  | PAliases "(string \<times> BIAImageAlias) list"
  | PTags "string set"

type_synonym pyobj = "string \<Rightarrow> pyval option"

text \<open>\<^verbatim>\<open>d.get(k, default)\<close>\<close>

definition dict_get :: "pyobj \<Rightarrow> string \<Rightarrow> pyval \<Rightarrow> pyval" where
  "dict_get d k dflt = (case d k of None \<Rightarrow> dflt | Some v \<Rightarrow> v)"

text \<open>
  The instance dictionary of a freshly constructed \<^verbatim>\<open>BIAImage\<close>, one entry per declared
  field; \<open>representations\<close> is the address of its list.
\<close>

definition opt_str :: "string option \<Rightarrow> pyval" where
  "opt_str x = (case x of None \<Rightarrow> PNone | Some s \<Rightarrow> PStr s)"

definition new_BIAImage ::
  "string \<Rightarrow> string option \<Rightarrow> string option \<Rightarrow> string \<Rightarrow> string option \<Rightarrow>
   addr \<Rightarrow> (dkey \<times> pv) list \<Rightarrow> pyobj" where
  "new_BIAImage ident accession_id name original_relpath dimensions representations attributes =
     map_of
       [(''id'', PStr ident),
        (''accession_id'', opt_str accession_id),
        (''name'', opt_str name),
        (''original_relpath'', PPath original_relpath),
        (''dimensions'', opt_str dimensions),
        (''representations'', PReps representations),
        (''attributes'', PDict attributes)]"

text \<open>The instance dictionary of a freshly constructed \<^verbatim>\<open>BIAStudy\<close>.\<close>

record BIAStudy_fields =
  f_accession_id :: string
  f_title :: string
  f_description :: string
  f_authors :: "Author list option"
  f_organism :: string
  f_release_date :: string
  f_imaging_type :: "string option"
  f_attributes :: "(dkey \<times> pv) list"
  f_example_image_uri :: string
  f_file_references :: "(string \<times> FileReference) list"
  f_images :: "(string \<times> pyobj) list"
  f_archive_files :: "(string \<times> BIAFile) list"
  f_other_files :: "(string \<times> BIAFile) list"
  f_image_aliases :: "(string \<times> BIAImageAlias) list"
  f_tags :: "string set"

definition new_BIAStudy :: "BIAStudy_fields \<Rightarrow> pyobj" where
  "new_BIAStudy f =
     map_of
       [(''accession_id'', PStr (f_accession_id f)),
        (''title'', PStr (f_title f)),
        (''description'', PStr (f_description f)),
        (''authors'', (case f_authors f of None \<Rightarrow> PNone | Some a \<Rightarrow> PAuthors a)),
        (''organism'', PStr (f_organism f)),
        (''release_date'', PStr (f_release_date f)),
        (''imaging_type'', opt_str (f_imaging_type f)),
        (''attributes'', PDict (f_attributes f)),
        (''example_image_uri'', PStr (f_example_image_uri f)),
        (''file_references'', PFileRefs (f_file_references f)),
        (''images'', PImages (f_images f)),
        (''archive_files'', PFiles (f_archive_files f)),
        (''other_files'', PFiles (f_other_files f)),
        (''image_aliases'', PAliases (f_image_aliases f)),
        (''tags'', PTags (f_tags f))]"

section \<open>The annotation merge (integrator.py)\<close>

text \<open>
  The four retrieval functions are imported from modules that are not part of the source
  at hand; they are parameters of the model. Each either returns its value or raises.
  \<^verbatim>\<open>get_study\<close> returns the study together with the heap that holds the lists of its images.
\<close>

record collaborators =
  get_study :: "string \<Rightarrow> error + pyobj \<times> heap"
  get_study_annotations :: "string \<Rightarrow> error + StudyAnnotation list"
  get_image_annotations :: "string \<Rightarrow> string \<Rightarrow> error + ImageAnnotation list"
  get_representations :: "string \<Rightarrow> string \<Rightarrow> error + BIAImageRepresentation list"

text \<open>Lines 13 to 15: the loop that fills \<^verbatim>\<open>annotations_dict\<close>.\<close>

fun build_annotations_dict ::
  "StudyAnnotation list \<Rightarrow> (string \<Rightarrow> string option) \<Rightarrow> (string \<Rightarrow> string option)" where
  "build_annotations_dict [] d = d"
| "build_annotations_dict (annotation # rest) d =
     build_annotations_dict rest (d(sa_key annotation \<mapsto> sa_value annotation))"

text \<open>Line 16: \<^verbatim>\<open>study.__dict__.update(annotations_dict)\<close>.\<close>

definition dict_update :: "pyobj \<Rightarrow> (string \<Rightarrow> string option) \<Rightarrow> pyobj" where
  "dict_update obj d = (\<lambda>k. case d k of None \<Rightarrow> obj k | Some v \<Rightarrow> Some (PStr v))"

definition apply_study_annotations :: "pyobj \<Rightarrow> StudyAnnotation list \<Rightarrow> pyobj" where
  "apply_study_annotations study study_annotations =
     dict_update study (build_annotations_dict study_annotations Map.empty)"

text \<open>Lines 20 and 21: each image annotation is stored in the image's \<^verbatim>\<open>__dict__\<close> in turn.\<close>

fun apply_image_annotations :: "pyobj \<Rightarrow> ImageAnnotation list \<Rightarrow> pyobj" where
  "apply_image_annotations img [] = img"
| "apply_image_annotations img (image_annotation # rest) =
     apply_image_annotations
       (img(ia_key image_annotation \<mapsto> PStr (ia_value image_annotation))) rest"

text \<open>
  Line 23: \<^verbatim>\<open>image.representations += additional_image_reps\<close>. The attribute is read from
  the instance dictionary. A list object is extended in place, so that every image that
  holds the same list object sees the new elements, and the attribute is set to the same
  list object again. The only other value the field of a \<^verbatim>\<open>BIAImage\<close> can hold, the
  \<^verbatim>\<open>str\<close> of an annotation named \<^verbatim>\<open>representations\<close>, makes \<^verbatim>\<open>+=\<close> raise TypeError, as
  None, a path, a dict and an OME object do.
\<close>

definition iadd_representations ::
  "pyobj \<Rightarrow> heap \<Rightarrow> BIAImageRepresentation list \<Rightarrow> error + heap" where
  "iadd_representations img h additional_image_reps =
     (case img ''representations'' of
        None \<Rightarrow> Inl AttributeError
      | Some (PReps a) \<Rightarrow> Inr (h(a := h a @ additional_image_reps))
      | Some _ \<Rightarrow> Inl TypeError)"

text \<open>Lines 19 to 23: the body of the loop over the images.\<close>

definition annotate_image ::
  "collaborators \<Rightarrow> string \<Rightarrow> string \<Rightarrow> pyobj \<Rightarrow> heap \<Rightarrow> error + pyobj \<times> heap" where
  "annotate_image env accession_id image_id img h =
     (case get_image_annotations env accession_id image_id of
        Inl e \<Rightarrow> Inl e
      | Inr image_annotations \<Rightarrow>
          (let img' = apply_image_annotations img image_annotations in
           case get_representations env accession_id image_id of
             Inl e \<Rightarrow> Inl e
           | Inr additional_image_reps \<Rightarrow>
               (case iadd_representations img' h additional_image_reps of
                  Inl e \<Rightarrow> Inl e
                | Inr h' \<Rightarrow> Inr (img', h'))))"

text \<open>
  Line 18: the loop over \<^verbatim>\<open>study.images.items()\<close>, in the order of the dictionary. Each
  image is handled in the heap the images before it have left.
\<close>

fun annotate_images ::
  "collaborators \<Rightarrow> string \<Rightarrow> (string \<times> pyobj) list \<Rightarrow> heap \<Rightarrow>
   error + (string \<times> pyobj) list \<times> heap" where
  "annotate_images env accession_id [] h = Inr ([], h)"
| "annotate_images env accession_id ((image_id, img) # rest) h =
     (case annotate_image env accession_id image_id img h of
        Inl e \<Rightarrow> Inl e
      | Inr (img', h') \<Rightarrow>
          (case annotate_images env accession_id rest h' of
             Inl e \<Rightarrow> Inl e
           | Inr (rest', h'') \<Rightarrow> Inr ((image_id, img') # rest', h'')))"

text \<open>
  \<^verbatim>\<open>study.images.items()\<close> reads the attribute \<^verbatim>\<open>images\<close> from the instance dictionary. It
  is the dictionary of images unless a study annotation named \<^verbatim>\<open>images\<close> replaced it by
  a \<^verbatim>\<open>str\<close>, which has no \<^verbatim>\<open>items\<close>.
\<close>

definition load_and_annotate_study ::
  "collaborators \<Rightarrow> string \<Rightarrow> error + pyobj \<times> heap" where
  "load_and_annotate_study env accession_id =
     (case get_study env accession_id of
        Inl e \<Rightarrow> Inl e
      | Inr (study, h) \<Rightarrow>
          (case get_study_annotations env accession_id of
             Inl e \<Rightarrow> Inl e
           | Inr study_annotations \<Rightarrow>
               (let study' = apply_study_annotations study study_annotations in
                case study' ''images'' of
                  None \<Rightarrow> Inl AttributeError
                | Some (PImages imgs) \<Rightarrow>
                    (case annotate_images env accession_id imgs h of
                       Inl e \<Rightarrow> Inl e
                     | Inr (imgs', h') \<Rightarrow> Inr (study'(''images'' \<mapsto> PImages imgs'), h'))
                | Some _ \<Rightarrow> Inl AttributeError)))"

section \<open>The OME metadata accessor (models.py, BIAImage.ome_metadata)\<close>

text \<open>
  The accessor calls the Python standard library (\<^verbatim>\<open>urllib.parse\<close>, \<^verbatim>\<open>pathlib\<close>), the
  \<^verbatim>\<open>requests\<close> library and \<^verbatim>\<open>ome_types\<close>. They are parameters of the model. A path
  object is represented by its text.
\<close>

record ParseResult =
  scheme :: string
  netloc :: string
  path :: string
  params :: string
  query :: string
  fragment :: string

record Response =
  status_code :: int
  content :: string

record pylib =
  urlparse :: "uri \<Rightarrow> error + ParseResult"
  urlunparse ::
    "string \<times> string \<times> string \<times> string option \<times> string option \<times> string option \<Rightarrow> string"
  path_of :: "string \<Rightarrow> string"                     \<comment> \<open>\<^verbatim>\<open>Path(s)\<close>\<close>
  path_parent :: "string \<Rightarrow> string"                 \<comment> \<open>\<^verbatim>\<open>p.parent\<close>\<close>
  path_truediv :: "string \<Rightarrow> string \<Rightarrow> string"      \<comment> \<open>\<^verbatim>\<open>p / s\<close>\<close>
  path_str :: "string \<Rightarrow> string"                    \<comment> \<open>\<^verbatim>\<open>str(p)\<close>\<close>
  requests_get :: "string \<Rightarrow> error + Response"
  from_xml :: "string \<Rightarrow> string \<Rightarrow> bool \<Rightarrow> error + OME"  \<comment> \<open>content, parser, validate\<close>

text \<open>
  \<^verbatim>\<open>_ome_xml_url_parse\<close>. The list of strings is the log of the URIs requested so far; every
  call of \<^verbatim>\<open>requests.get\<close> appends to it.
\<close>

definition ome_xml_url_parse ::
  "pylib \<Rightarrow> string \<Rightarrow> string list \<Rightarrow> (error + OME) \<times> string list" where
  "ome_xml_url_parse lib ome_metadata_uri log =
     (case requests_get lib ome_metadata_uri of
        Inl e \<Rightarrow> (Inl e, log @ [ome_metadata_uri])
      | Inr r \<Rightarrow>
          if status_code r = 200
          then (from_xml lib (content r) ''lxml'' False, log @ [ome_metadata_uri])
          else (Inl AssertionError, log @ [ome_metadata_uri]))"

text \<open>\<^verbatim>\<open>xs.pop()\<close>: the last element, and the list without it.\<close>

definition list_pop :: "'a list \<Rightarrow> error + ('a \<times> 'a list)" where
  "list_pop xs = (if xs = [] then Inl IndexError else Inr (last xs, butlast xs))"

text \<open>
  Line 102: \<^verbatim>\<open>[rep for rep in self.representations if rep.type == "ome_ngff"]\<close>. The loop
  runs over the list object of the image. Over any other value that can be iterated (the
  characters of a \<^verbatim>\<open>str\<close>, the keys of a dict, the elements of a set, a list of authors)
  it ends at once when there is no element and raises AttributeError at the first element
  otherwise, none of them having an attribute \<^verbatim>\<open>type\<close>. None and a path cannot be
  iterated.
\<close>

definition ngff_representations ::
  "heap \<Rightarrow> pyval option \<Rightarrow> error + BIAImageRepresentation list" where
  "ngff_representations h v =
     (case v of
        None \<Rightarrow> Inl AttributeError
      | Some (PReps a) \<Rightarrow> Inr (filter (\<lambda>rep. rep_type rep = Some ''ome_ngff'') (h a))
      | Some (PStr s) \<Rightarrow> (if s = [] then Inr [] else Inl AttributeError)
      | Some (PDict d) \<Rightarrow> (if d = [] then Inr [] else Inl AttributeError)
      | Some (PImages d) \<Rightarrow> (if d = [] then Inr [] else Inl AttributeError)
      | Some (PFileRefs d) \<Rightarrow> (if d = [] then Inr [] else Inl AttributeError)
      | Some (PFiles d) \<Rightarrow> (if d = [] then Inr [] else Inl AttributeError)
      | Some (PAliases d) \<Rightarrow> (if d = [] then Inr [] else Inl AttributeError)
      | Some (PAuthors d) \<Rightarrow> (if d = [] then Inr [] else Inl AttributeError)
      | Some (PTags d) \<Rightarrow> (if d = {} then Inr [] else Inl AttributeError)
      | Some (POME d) \<Rightarrow> Inl AttributeError
      | Some PNone \<Rightarrow> Inl TypeError
      | Some (PPath p) \<Rightarrow> Inl TypeError)"

text \<open>Lines 108 to 115: the URI of the metadata document.\<close>

definition ome_metadata_uri_of :: "pylib \<Rightarrow> BIAImageRepresentation \<Rightarrow> error + string" where
  "ome_metadata_uri_of lib ngff_rep =
     (case urlparse lib (rep_uri ngff_rep) of
        Inl e \<Rightarrow> Inl e
      | Inr parsed_url \<Rightarrow>
          (let ome_metadata_path =
                 path_truediv lib (path_parent lib (path_of lib (path parsed_url)))
                   ''OME/METADATA.ome.xml''
           in Inr (urlunparse lib
                     (scheme parsed_url, netloc parsed_url, path_str lib ome_metadata_path,
                      None, None, None))))"

text \<open>
  The property \<^verbatim>\<open>ome_metadata\<close>. It reads the heap and returns the value (or the
  exception), the object, whose \<^verbatim>\<open>__dict__\<close> it may have written, and the request log.
\<close>

definition ome_metadata ::
  "pylib \<Rightarrow> heap \<Rightarrow> pyobj \<Rightarrow> string list \<Rightarrow> (error + pyval) \<times> pyobj \<times> string list" where
  "ome_metadata lib h self log =
     (let metadata = dict_get self ''ome_metadata'' PNone in
      if metadata = PNone then
        (case ngff_representations h (self ''representations'') of
           Inl e \<Rightarrow> (Inl e, self, log)
         | Inr ngff_rep \<Rightarrow>
             if ngff_rep = [] then (Inr PNone, self, log)
             else
               (case list_pop ngff_rep of
                  Inl e \<Rightarrow> (Inl e, self, log)
                | Inr (rep, _) \<Rightarrow>
                    (case ome_metadata_uri_of lib rep of
                       Inl e \<Rightarrow> (Inl e, self, log)
                     | Inr ome_metadata_uri \<Rightarrow>
                         (case ome_xml_url_parse lib ome_metadata_uri log of
                            (Inl e, log') \<Rightarrow> (Inl e, self, log')
                          | (Inr m, log') \<Rightarrow>
                              (Inr (POME m), self(''ome_metadata'' \<mapsto> POME m), log')))))
      else (Inr metadata, self, log))"

text \<open>The accessor called \<open>n\<close> times in a row on the same object.\<close>

fun access_times ::
  "pylib \<Rightarrow> heap \<Rightarrow> nat \<Rightarrow> pyobj \<Rightarrow> string list \<Rightarrow>
   (error + pyval) list \<times> pyobj \<times> string list" where
  "access_times lib h 0 self log = ([], self, log)"
| "access_times lib h (Suc n) self log =
     (case ome_metadata lib h self log of
        (r, self', log') \<Rightarrow>
          (case access_times lib h n self' log' of
             (rs, self'', log'') \<Rightarrow> (r # rs, self'', log'')))"

section \<open>Serialisation (models.py, BIABaseModel.json)\<close>






















section \<open>Test fixtures\<close>

text \<open>
  The scenario of the specification: study S-BIAD1 with one image IM1 that has one
  representation of type raw. The collaborators return two study annotations and two image
  annotations with the same key each, and two further representations, the second of them
  equal to the one the image already has. The list of IM1 is at address 0 of the heap; the
  list at address 1 belongs to the image IM2 below.
\<close>

definition raw_rep :: BIAImageRepresentation where
  "raw_rep =
     \<lparr>rep_accession_id = ''S-BIAD1'', rep_image_id = ''IM1'', rep_uri = UStr ''http://x/a'',
      rep_size = 10, rep_type = Some ''raw'', rep_dimensions = None, rep_attributes = None\<rparr>"

definition thumbnail_rep :: BIAImageRepresentation where
  "thumbnail_rep =
     \<lparr>rep_accession_id = ''S-BIAD1'', rep_image_id = ''IM1'', rep_uri = UStr ''http://x/thumb'',
      rep_size = 1, rep_type = Some ''thumbnail'', rep_dimensions = None,
      rep_attributes = None\<rparr>"

definition ngff_a :: BIAImageRepresentation where
  "ngff_a =
     \<lparr>rep_accession_id = ''S-BIAD1'', rep_image_id = ''IM2'',
      rep_uri = UStr ''https://example.org/a.zarr/0'', rep_size = 100,
      rep_type = Some ''ome_ngff'', rep_dimensions = None, rep_attributes = None\<rparr>"

definition ngff_b :: BIAImageRepresentation where
  "ngff_b =
     \<lparr>rep_accession_id = ''S-BIAD1'', rep_image_id = ''IM2'',
      rep_uri = UStr ''https://example.org/b.zarr/0'', rep_size = 100,
      rep_type = Some ''ome_ngff'', rep_dimensions = None, rep_attributes = None\<rparr>"

definition demo_heap :: heap where
  "demo_heap = (\<lambda>a. [])(0 := [raw_rep], 1 := [ngff_a, raw_rep, ngff_b])"

definition demo_image :: pyobj where
  "demo_image = new_BIAImage ''IM1'' (Some ''S-BIAD1'') None ''a.png'' None 0 []"

definition demo_fields :: BIAStudy_fields where
  "demo_fields =
     \<lparr>f_accession_id = ''S-BIAD1'', f_title = ''t'', f_description = ''d'',
      f_authors = Some [], f_organism = ''rat'', f_release_date = ''2020-01-01'',
      f_imaging_type = None, f_attributes = [], f_example_image_uri = [],
      f_file_references = [], f_images = [(''IM1'', demo_image)], f_archive_files = [],
      f_other_files = [], f_image_aliases = [], f_tags = {}\<rparr>"

definition demo_study :: pyobj where
  "demo_study = new_BIAStudy demo_fields"

definition demo_study_annotations :: "StudyAnnotation list" where
  "demo_study_annotations =
     [\<lparr>sa_accession_id = ''S-BIAD1'', sa_key = ''organism'', sa_value = ''mouse''\<rparr>,
      \<lparr>sa_accession_id = ''S-BIAD1'', sa_key = ''organism'', sa_value = ''human''\<rparr>]"

definition demo_image_annotations :: "ImageAnnotation list" where
  "demo_image_annotations =
     [\<lparr>ia_accession_id = ''S-BIAD1'', ia_image_id = ''IM1'', ia_key = ''dimensions'',
       ia_value = ''4D''\<rparr>,
      \<lparr>ia_accession_id = ''S-BIAD1'', ia_image_id = ''IM1'', ia_key = ''dimensions'',
       ia_value = ''5D''\<rparr>]"

definition demo_env :: collaborators where
  "demo_env =
     \<lparr>get_study =
        (\<lambda>a. if a = ''S-BIAD1'' then Inr (demo_study, demo_heap)
             else Inl (Raised ''not found'')),
      get_study_annotations = (\<lambda>a. Inr demo_study_annotations),
      get_image_annotations = (\<lambda>a i. Inr demo_image_annotations),
      get_representations = (\<lambda>a i. Inr [thumbnail_rep, raw_rep])\<rparr>"

definition demo_merged_image :: pyobj where
  "demo_merged_image = apply_image_annotations demo_image demo_image_annotations"

definition demo_merged :: pyobj where
  "demo_merged =
     (apply_study_annotations demo_study demo_study_annotations)
       (''images'' \<mapsto> PImages [(''IM1'', demo_merged_image)])"

definition demo_merged_heap :: heap where
  "demo_merged_heap = demo_heap(0 := [raw_rep, thumbnail_rep, raw_rep])"

text \<open>
  An image with two representations of type ome_ngff, and the answers of the libraries on
  the two URIs: \<^verbatim>\<open>urlparse\<close> splits scheme, host and path, the parent of the path drops
  its last component, and the server answers 200 for the two metadata documents. With
  \<open>down_lib\<close> the server answers 404 to every request.
\<close>

definition two_ngff_image :: pyobj where
  "two_ngff_image = new_BIAImage ''IM2'' (Some ''S-BIAD1'') None ''b.png'' None 1 []"

definition demo_urlparse :: "uri \<Rightarrow> error + ParseResult" where
  "demo_urlparse u =
     (if u = UStr ''https://example.org/a.zarr/0'' then
        Inr \<lparr>scheme = ''https'', netloc = ''example.org'', path = ''/a.zarr/0'',
             params = [], query = [], fragment = []\<rparr>
      else if u = UStr ''https://example.org/b.zarr/0'' then
        Inr \<lparr>scheme = ''https'', netloc = ''example.org'', path = ''/b.zarr/0'',
             params = [], query = [], fragment = []\<rparr>
      else Inl (Raised ''not in the fixture''))"

definition demo_requests_get :: "string \<Rightarrow> error + Response" where
  "demo_requests_get u =
     (if u = ''https://example.org/a.zarr/OME/METADATA.ome.xml'' then
        Inr \<lparr>status_code = 200, content = ''<OME a/>''\<rparr>
      else if u = ''https://example.org/b.zarr/OME/METADATA.ome.xml'' then
        Inr \<lparr>status_code = 200, content = ''<OME b/>''\<rparr>
      else Inr \<lparr>status_code = 404, content = []\<rparr>)"

definition demo_lib :: pylib where
  "demo_lib =
     \<lparr>urlparse = demo_urlparse,
      urlunparse = (\<lambda>(s, n, p, _). s @ ''://'' @ n @ p),
      path_of = (\<lambda>s. s),
      path_parent =
        (\<lambda>p. if p = ''/a.zarr/0'' then ''/a.zarr''
             else if p = ''/b.zarr/0'' then ''/b.zarr'' else p),
      path_truediv = (\<lambda>p s. p @ ''/'' @ s),
      path_str = (\<lambda>p. p),
      requests_get = demo_requests_get,
      from_xml = (\<lambda>c p v. Inr (OME c))\<rparr>"

definition down_lib :: pylib where
  "down_lib = demo_lib\<lparr>requests_get := (\<lambda>u. Inr \<lparr>status_code = 404, content = []\<rparr>)\<rparr>"

text \<open>The collaborators of the scenario, with one image annotation named ome_metadata.\<close>

definition cached_env :: collaborators where
  "cached_env =
     demo_env
       \<lparr>get_image_annotations :=
          (\<lambda>a i. Inr [\<lparr>ia_accession_id = ''S-BIAD1'', ia_image_id = ''IM1'',
                        ia_key = ''ome_metadata'', ia_value = ''from annotation''\<rparr>])\<rparr>"

definition cached_merged_image :: pyobj where
  "cached_merged_image = demo_image(''ome_metadata'' \<mapsto> PStr ''from annotation'')"

definition cached_merged :: pyobj where
  "cached_merged =
     (apply_study_annotations demo_study demo_study_annotations)
       (''images'' \<mapsto> PImages [(''IM1'', cached_merged_image)])"

text \<open>
  A study with the two images IM1 and IM2, each with a list of its own. The image
  annotations of IM2 name it twice. With \<open>failing_env\<close> the representations of IM2 cannot
  be retrieved.
\<close>

definition two_image_study :: pyobj where
  "two_image_study =
     new_BIAStudy
       (demo_fields\<lparr>f_images := [(''IM1'', demo_image), (''IM2'', two_ngff_image)]\<rparr>)"

definition name_annotations :: "ImageAnnotation list" where
  "name_annotations =
     [\<lparr>ia_accession_id = ''S-BIAD1'', ia_image_id = ''IM2'', ia_key = ''name'',
       ia_value = ''first''\<rparr>,
      \<lparr>ia_accession_id = ''S-BIAD1'', ia_image_id = ''IM2'', ia_key = ''name'',
       ia_value = ''second''\<rparr>]"

definition two_env :: collaborators where
  "two_env =
     demo_env
       \<lparr>get_study := (\<lambda>a. Inr (two_image_study, demo_heap)),
        get_image_annotations :=
          (\<lambda>a i. if i = ''IM2'' then Inr name_annotations else Inr demo_image_annotations)\<rparr>"

definition two_merged_image :: pyobj where
  "two_merged_image = apply_image_annotations two_ngff_image name_annotations"

definition two_merged :: pyobj where
  "two_merged =
     (apply_study_annotations two_image_study demo_study_annotations)
       (''images'' \<mapsto> PImages [(''IM1'', demo_merged_image), (''IM2'', two_merged_image)])"

definition two_merged_heap :: heap where
  "two_merged_heap =
     demo_heap
       (0 := [raw_rep, thumbnail_rep, raw_rep],
        1 := [ngff_a, raw_rep, ngff_b, thumbnail_rep, raw_rep])"

definition failing_env :: collaborators where
  "failing_env =
     two_env
       \<lparr>get_representations :=
          (\<lambda>a i. if i = ''IM2'' then Inl (Raised ''network error'')
                 else Inr [thumbnail_rep, raw_rep])\<rparr>"

text \<open>
  A study whose images IM1 and IM3 hold the same list object, the one at address 0, and
  collaborators that return one further representation for each.
\<close>

definition shared_image :: pyobj where
  "shared_image = new_BIAImage ''IM3'' (Some ''S-BIAD1'') None ''c.png'' None 0 []"

definition shared_study :: pyobj where
  "shared_study =
     new_BIAStudy
       (demo_fields\<lparr>f_images := [(''IM1'', demo_image), (''IM3'', shared_image)]\<rparr>)"

definition shared_env :: collaborators where
  "shared_env =
     \<lparr>get_study = (\<lambda>a. Inr (shared_study, demo_heap)),
      get_study_annotations = (\<lambda>a. Inr []),
      get_image_annotations = (\<lambda>a i. Inr []),
      get_representations =
        (\<lambda>a i. if i = ''IM1'' then Inr [thumbnail_rep] else Inr [ngff_a])\<rparr>"

text \<open>The collaborators of the scenario with no annotations at all.\<close>

definition empty_env :: collaborators where
  "empty_env =
     demo_env
       \<lparr>get_study_annotations := (\<lambda>a. Inr []),
        get_image_annotations := (\<lambda>a i. Inr [])\<rparr>"

definition empty_merged :: pyobj where
  "empty_merged = demo_study(''images'' \<mapsto> PImages [(''IM1'', demo_image)])"



section \<open>Properties of the model\<close>

subsection \<open>The merge\<close>

lemma build_annotations_dict_lookup:
  "build_annotations_dict sas d k =
     (if k \<in> sa_key ` set sas
      then Some (sa_value (last (filter (\<lambda>b. sa_key b = k) sas)))
      else d k)"
proof (induction sas arbitrary: d)
  case Nil
  show ?case by simp
next
  case (Cons a sas)
  show ?case
  proof (cases "k \<in> sa_key ` set sas")
    case True
    then have "filter (\<lambda>b. sa_key b = k) sas \<noteq> []"
      by (auto simp: filter_empty_conv)
    with True show ?thesis by (simp add: Cons.IH)
  next
    case False
    then have "filter (\<lambda>b. sa_key b = k) sas = []"
      by (auto simp: filter_empty_conv)
    with False show ?thesis by (auto simp: Cons.IH)
  qed
qed

lemma apply_study_annotations_lookup:
  "apply_study_annotations study sas k =
     (if k \<in> sa_key ` set sas
      then Some (PStr (sa_value (last (filter (\<lambda>b. sa_key b = k) sas))))
      else study k)"
  by (simp add: apply_study_annotations_def dict_update_def build_annotations_dict_lookup)

lemma apply_image_annotations_lookup:
  "apply_image_annotations img ias k =
     (if k \<in> ia_key ` set ias
      then Some (PStr (ia_value (last (filter (\<lambda>b. ia_key b = k) ias))))
      else img k)"
proof (induction ias arbitrary: img)
  case Nil
  show ?case by simp
next
  case (Cons a ias)
  show ?case
  proof (cases "k \<in> ia_key ` set ias")
    case True
    then have "filter (\<lambda>b. ia_key b = k) ias \<noteq> []"
      by (auto simp: filter_empty_conv)
    with True show ?thesis by (simp add: Cons.IH)
  next
    case False
    then have "filter (\<lambda>b. ia_key b = k) ias = []"
      by (auto simp: filter_empty_conv)
    with False show ?thesis by (auto simp: Cons.IH)
  qed
qed

lemma strategies_agree:
  "map (\<lambda>a. (sa_key a, sa_value a)) sas = map (\<lambda>a. (ia_key a, ia_value a)) ias \<Longrightarrow>
   dict_update obj (build_annotations_dict sas d) = apply_image_annotations (dict_update obj d) ias"
proof (induction sas arbitrary: ias d)
  case Nil
  then show ?case by simp
next
  case (Cons a sas)
  then obtain b ias' where ias: "ias = b # ias'" by (cases ias) auto
  with Cons.prems have k: "ia_key b = sa_key a" and v: "ia_value b = sa_value a"
    and rest: "map (\<lambda>a. (sa_key a, sa_value a)) sas = map (\<lambda>a. (ia_key a, ia_value a)) ias'"
    by simp_all
  have upd: "dict_update obj (d(sa_key a \<mapsto> sa_value a))
             = (dict_update obj d)(sa_key a \<mapsto> PStr (sa_value a))"
    by (auto simp: dict_update_def fun_eq_iff)
  have "dict_update obj (build_annotations_dict (a # sas) d)
        = dict_update obj (build_annotations_dict sas (d(sa_key a \<mapsto> sa_value a)))"
    by simp
  also have "\<dots> = apply_image_annotations (dict_update obj (d(sa_key a \<mapsto> sa_value a))) ias'"
    by (rule Cons.IH[OF rest])
  also have "\<dots> = apply_image_annotations (dict_update obj d) ias"
    unfolding upd ias by (simp only: apply_image_annotations.simps k v)
  finally show ?case .
qed

lemma iadd_representations_Inr:
  assumes "iadd_representations img h reps = Inr h'"
  obtains a where "img ''representations'' = Some (PReps a)"
    and "h' = h(a := h a @ reps)"
  using assms
  by (auto simp: iadd_representations_def split: option.splits pyval.splits)

text \<open>
  What a step of the loop that returns has done: the annotations are in the instance
  dictionary, none of them is named \<open>representations\<close>, and the list object of the image
  has the fetched representations at its end.
\<close>

lemma annotate_image_Inr:
  assumes "annotate_image env acc iid img h = Inr (img', h')"
  obtains ias fetched a where
    "get_image_annotations env acc iid = Inr ias"
    "get_representations env acc iid = Inr fetched"
    "''representations'' \<notin> ia_key ` set ias"
    "img ''representations'' = Some (PReps a)"
    "img' = apply_image_annotations img ias"
    "h' = h(a := h a @ fetched)"
proof -
  from assms obtain ias fetched a where s:
    "get_image_annotations env acc iid = Inr ias"
    "get_representations env acc iid = Inr fetched"
    "apply_image_annotations img ias ''representations'' = Some (PReps a)"
    "img' = apply_image_annotations img ias"
    "h' = h(a := h a @ fetched)"
    by (auto simp: annotate_image_def Let_def split: sum.splits elim!: iadd_representations_Inr)
  from s(3) have n: "''representations'' \<notin> ia_key ` set ias"
    by (auto simp: apply_image_annotations_lookup split: if_splits)
  with s(3) have "img ''representations'' = Some (PReps a)"
    by (simp add: apply_image_annotations_lookup)
  with s n that show thesis by blast
qed

lemma annotate_image_representations:
  assumes "annotate_image env acc iid img h = Inr (img', h')"
  shows "\<exists>a fetched. img ''representations'' = Some (PReps a)
           \<and> img' ''representations'' = Some (PReps a)
           \<and> get_representations env acc iid = Inr fetched
           \<and> h' = h(a := h a @ fetched)"
proof -
  from assms obtain ias fetched a where s:
    "get_representations env acc iid = Inr fetched"
    "''representations'' \<notin> ia_key ` set ias"
    "img ''representations'' = Some (PReps a)"
    "img' = apply_image_annotations img ias"
    "h' = h(a := h a @ fetched)"
    by (auto elim: annotate_image_Inr)
  from s(2) s(3) s(4) have "img' ''representations'' = Some (PReps a)"
    by (simp add: apply_image_annotations_lookup)
  with s show ?thesis by blast
qed

lemma annotate_image_keeps_annotation:
  assumes "annotate_image env acc iid img h = Inr (img', h')"
    and "get_image_annotations env acc iid = Inr ias"
    and "k \<in> ia_key ` set ias"
  shows "img' k = Some (PStr (ia_value (last (filter (\<lambda>a. ia_key a = k) ias))))"
proof -
  from assms(1) obtain ias0 where a:
    "get_image_annotations env acc iid = Inr ias0"
    "img' = apply_image_annotations img ias0"
    by (auto elim: annotate_image_Inr)
  from a(1) assms(2) have "ias0 = ias" by simp
  with a(2) assms(3) show ?thesis
    by (simp add: apply_image_annotations_lookup)
qed

lemma annotate_image_unannotated:
  assumes "annotate_image env acc iid img h = Inr (img', h')"
    and "get_image_annotations env acc iid = Inr []"
  shows "img' = img"
  using assms
  by (auto simp: annotate_image_def Let_def split: sum.splits)

lemma annotate_images_Inr:
  "annotate_images env acc imgs h = Inr (imgs', h') \<Longrightarrow>
   list_all2 (\<lambda>(iid, img) (iid', img'). iid' = iid \<and>
                (\<exists>h1 h2. annotate_image env acc iid img h1 = Inr (img', h2)))
     imgs imgs'"
proof (induction imgs arbitrary: imgs' h)
  case Nil
  then show ?case by simp
next
  case (Cons p imgs)
  obtain iid img where p: "p = (iid, img)" by (cases p)
  from Cons.prems p obtain img' h1 rest' where s:
    "annotate_image env acc iid img h = Inr (img', h1)"
    "annotate_images env acc imgs h1 = Inr (rest', h')"
    "imgs' = (iid, img') # rest'"
    by (auto split: sum.splits)
  from Cons.IH[OF s(2)] s(1) s(3) p show ?case by auto
qed

lemma annotate_images_ids:
  "annotate_images env acc imgs h = Inr (imgs', h') \<Longrightarrow> map fst imgs' = map fst imgs"
  by (induction imgs arbitrary: imgs' h) (auto split: sum.splits)

lemma annotate_images_member:
  assumes "annotate_images env acc imgs h = Inr (imgs', h')" and "(iid, img') \<in> set imgs'"
  shows "\<exists>img h1 h2. (iid, img) \<in> set imgs \<and> annotate_image env acc iid img h1 = Inr (img', h2)"
proof -
  from assms(2) obtain i where i: "i < length imgs'" "imgs' ! i = (iid, img')"
    by (auto simp: in_set_conv_nth)
  note l = annotate_images_Inr[OF assms(1)]
  from l have len: "length imgs = length imgs'" by (rule list_all2_lengthD)
  obtain iid0 img where x: "imgs ! i = (iid0, img)" by (cases "imgs ! i")
  from list_all2_nthD2[OF l i(1)] i(2) x
  have "iid = iid0" "\<exists>h1 h2. annotate_image env acc iid0 img h1 = Inr (img', h2)"
    by simp_all
  moreover from x i(1) len have "(iid0, img) \<in> set imgs"
    by (metis nth_mem)
  ultimately show ?thesis by blast
qed

text \<open>The loop over a list in two parts: the second part runs in the heap the first has left.\<close>

lemma annotate_images_append:
  "annotate_images env acc (xs @ ys) h =
     (case annotate_images env acc xs h of
        Inl e \<Rightarrow> Inl e
      | Inr (xs', h1) \<Rightarrow>
          (case annotate_images env acc ys h1 of
             Inl e \<Rightarrow> Inl e
           | Inr (ys', h2) \<Rightarrow> Inr (xs' @ ys', h2)))"
proof (induction xs arbitrary: h)
  case Nil
  show ?case by (simp split: sum.splits)
next
  case (Cons p xs)
  obtain iid img where p: "p = (iid, img)" by (cases p)
  show ?case
    by (simp add: p Cons.IH split: sum.splits prod.splits)
qed

lemma annotate_images_append_fail:
  assumes "annotate_images env acc pre h = Inr (pre', h1)"
    and "annotate_image env acc iid img h1 = Inl e"
  shows "annotate_images env acc (pre @ (iid, img) # post) h = Inl e"
  using assms by (simp add: annotate_images_append)

text \<open>A list object that no image of the loop holds is left as it was.\<close>

lemma annotate_images_frame:
  "annotate_images env acc imgs h = Inr (imgs', h') \<Longrightarrow>
   \<forall>p \<in> set imgs. snd p ''representations'' \<noteq> Some (PReps b) \<Longrightarrow> h' b = h b"
proof (induction imgs arbitrary: imgs' h)
  case Nil
  then show ?case by simp
next
  case (Cons p imgs)
  obtain iid img where p: "p = (iid, img)" by (cases p)
  from Cons.prems(1) p obtain img' h1 rest' where s:
    "annotate_image env acc iid img h = Inr (img', h1)"
    "annotate_images env acc imgs h1 = Inr (rest', h')"
    by (auto split: sum.splits)
  from annotate_image_representations[OF s(1)] obtain a fetched where r:
    "img ''representations'' = Some (PReps a)" "h1 = h(a := h a @ fetched)"
    by blast
  from Cons.prems(2) p r(1) have "a \<noteq> b" by auto
  with r(2) have "h1 b = h b" by simp
  moreover from Cons.prems(2) have "\<forall>p \<in> set imgs. snd p ''representations'' \<noteq> Some (PReps b)"
    by simp
  from Cons.IH[OF s(2) this] have "h' b = h1 b" .
  ultimately show ?case by simp
qed

text \<open>When no two images hold the same list object, each list gets its own fetched items only.\<close>

lemma annotate_images_unshared:
  "annotate_images env acc imgs h = Inr (imgs', h') \<Longrightarrow>
   distinct (map (\<lambda>p. snd p ''representations'') imgs) \<Longrightarrow>
   list_all2 (\<lambda>(iid, img) (iid', img'). iid' = iid \<and>
      (\<exists>a fetched. img ''representations'' = Some (PReps a)
         \<and> img' ''representations'' = Some (PReps a)
         \<and> get_representations env acc iid = Inr fetched
         \<and> h' a = h a @ fetched))
     imgs imgs'"
proof (induction imgs arbitrary: imgs' h)
  case Nil
  then show ?case by simp
next
  case (Cons p imgs)
  obtain iid img where p: "p = (iid, img)" by (cases p)
  from Cons.prems(1) p obtain img' h1 rest' where s:
    "annotate_image env acc iid img h = Inr (img', h1)"
    "annotate_images env acc imgs h1 = Inr (rest', h')"
    "imgs' = (iid, img') # rest'"
    by (auto split: sum.splits)
  from annotate_image_representations[OF s(1)] obtain a fetched where r:
    "img ''representations'' = Some (PReps a)" "img' ''representations'' = Some (PReps a)"
    "get_representations env acc iid = Inr fetched" "h1 = h(a := h a @ fetched)"
    by blast
  from Cons.prems(2) p r(1)
  have ni: "Some (PReps a) \<notin> (\<lambda>p. snd p ''representations'') ` set imgs"
    and d: "distinct (map (\<lambda>p. snd p ''representations'') imgs)"
    by simp_all
  have fresh: "\<forall>q \<in> set imgs. snd q ''representations'' \<noteq> Some (PReps a)"
  proof
    fix q
    assume "q \<in> set imgs"
    then have m: "snd q ''representations'' \<in> (\<lambda>p. snd p ''representations'') ` set imgs"
      by (rule imageI)
    show "snd q ''representations'' \<noteq> Some (PReps a)"
    proof
      assume "snd q ''representations'' = Some (PReps a)"
      with m have "Some (PReps a) \<in> (\<lambda>p. snd p ''representations'') ` set imgs"
        by simp
      with ni show False by (rule notE)
    qed
  qed
  from annotate_images_frame[OF s(2) fresh] r(4) have first: "h' a = h a @ fetched"
    by simp
  have rest: "list_all2 (\<lambda>(iid, img) (iid', img'). iid' = iid \<and>
      (\<exists>a fetched. img ''representations'' = Some (PReps a)
         \<and> img' ''representations'' = Some (PReps a)
         \<and> get_representations env acc iid = Inr fetched
         \<and> h' a = h a @ fetched))
     imgs rest'"
    unfolding list_all2_conv_all_nth
  proof (intro conjI allI impI)
    from Cons.IH[OF s(2) d] show "length imgs = length rest'"
      by (rule list_all2_lengthD)
  next
    fix i
    assume i: "i < length imgs"
    obtain iid1 img1 where x: "imgs ! i = (iid1, img1)" by (cases "imgs ! i")
    obtain iid2 img2 where y: "rest' ! i = (iid2, img2)" by (cases "rest' ! i")
    from list_all2_nthD[OF Cons.IH[OF s(2) d] i] x y obtain a1 f1 where q:
      "iid2 = iid1" "img1 ''representations'' = Some (PReps a1)"
      "img2 ''representations'' = Some (PReps a1)"
      "get_representations env acc iid1 = Inr f1" "h' a1 = h1 a1 @ f1"
      by auto
    from i x have "(iid1, img1) \<in> set imgs" by (metis nth_mem)
    with fresh have "snd (iid1, img1) ''representations'' \<noteq> Some (PReps a)" by (rule bspec)
    with q(2) have "a1 \<noteq> a" by auto
    with r(4) have "h1 a1 = h a1" by simp
    with q show "(case imgs ! i of
        (iid, img) \<Rightarrow> \<lambda>(iid', img'). iid' = iid \<and>
          (\<exists>a fetched. img ''representations'' = Some (PReps a)
             \<and> img' ''representations'' = Some (PReps a)
             \<and> get_representations env acc iid = Inr fetched
             \<and> h' a = h a @ fetched)) (rest' ! i)"
      unfolding x y by simp
  qed
  from first r rest s(3) p show ?case by auto
qed

lemma load_and_annotate_study_Inr:
  assumes "load_and_annotate_study env acc = Inr (s', h')"
  obtains s h sas imgs imgs' where
    "get_study env acc = Inr (s, h)"
    "get_study_annotations env acc = Inr sas"
    "''images'' \<notin> sa_key ` set sas"
    "s ''images'' = Some (PImages imgs)"
    "annotate_images env acc imgs h = Inr (imgs', h')"
    "s' = (apply_study_annotations s sas)(''images'' \<mapsto> PImages imgs')"
proof -
  from assms obtain s h sas imgs imgs' where a:
    "get_study env acc = Inr (s, h)"
    "get_study_annotations env acc = Inr sas"
    "apply_study_annotations s sas ''images'' = Some (PImages imgs)"
    "annotate_images env acc imgs h = Inr (imgs', h')"
    "s' = (apply_study_annotations s sas)(''images'' \<mapsto> PImages imgs')"
    by (auto simp: load_and_annotate_study_def Let_def
        split: sum.splits option.splits pyval.splits prod.splits)
  from a(3) have b: "''images'' \<notin> sa_key ` set sas"
    by (auto simp: apply_study_annotations_lookup split: if_splits)
  with a(3) have "s ''images'' = Some (PImages imgs)"
    by (simp add: apply_study_annotations_lookup)
  with a b that show thesis by blast
qed

lemma load_images_fail:
  assumes "get_study env acc = Inr (s, h)" "get_study_annotations env acc = Inr sas"
    "apply_study_annotations s sas ''images'' = Some (PImages (pre @ (iid, img) # post))"
    "annotate_images env acc pre h = Inr (pre', h1)"
    "annotate_image env acc iid img h1 = Inl e"
  shows "load_and_annotate_study env acc = Inl e"
  using annotate_images_append_fail[OF assms(4) assms(5), of post] assms(1-3)
  by (simp add: load_and_annotate_study_def)

lemma load_image_annotation_last:
  assumes "load_and_annotate_study env acc = Inr (s', h')"
    and "s' ''images'' = Some (PImages imgs')"
    and "(iid, img') \<in> set imgs'"
    and "get_image_annotations env acc iid = Inr ias"
    and "k \<in> ia_key ` set ias"
  shows "img' k = Some (PStr (ia_value (last (filter (\<lambda>a. ia_key a = k) ias))))"
proof -
  from assms(1) obtain s h sas imgs imgs0' where a:
    "annotate_images env acc imgs h = Inr (imgs0', h')"
    "s' = (apply_study_annotations s sas)(''images'' \<mapsto> PImages imgs0')"
    by (auto elim: load_and_annotate_study_Inr)
  from assms(2) a(2) have "imgs' = imgs0'" by simp
  with annotate_images_member[OF a(1)] assms(3)
  obtain img h1 h2 where "annotate_image env acc iid img h1 = Inr (img', h2)"
    by blast
  from annotate_image_keeps_annotation[OF this assms(4) assms(5)] show ?thesis .
qed

subsection \<open>The fixtures\<close>

lemma demo_heap_simps:
  "demo_heap 0 = [raw_rep]"
  "demo_heap (Suc 0) = [ngff_a, raw_rep, ngff_b]"
  by (simp_all add: demo_heap_def)

lemma rep_type_simps:
  "rep_type ngff_a = Some ''ome_ngff''" "rep_type ngff_b = Some ''ome_ngff''"
  "rep_type raw_rep = Some ''raw''" "rep_type thumbnail_rep = Some ''thumbnail''"
  by (simp_all add: ngff_a_def ngff_b_def raw_rep_def thumbnail_rep_def)

lemma image_simps:
  "demo_image ''representations'' = Some (PReps 0)"
  "demo_image ''ome_metadata'' = None"
  "two_ngff_image ''representations'' = Some (PReps (Suc 0))"
  "two_ngff_image ''ome_metadata'' = None"
  "shared_image ''representations'' = Some (PReps 0)"
  by (simp_all add: demo_image_def two_ngff_image_def shared_image_def new_BIAImage_def)

lemma study_images:
  "demo_study ''images'' = Some (PImages [(''IM1'', demo_image)])"
  "two_image_study ''images'' = Some (PImages [(''IM1'', demo_image), (''IM2'', two_ngff_image)])"
  "shared_study ''images'' = Some (PImages [(''IM1'', demo_image), (''IM3'', shared_image)])"
  by (simp_all add: demo_study_def two_image_study_def shared_study_def new_BIAStudy_def
      demo_fields_def)

lemma annotated_study_images:
  "apply_study_annotations demo_study demo_study_annotations ''images''
   = Some (PImages [(''IM1'', demo_image)])"
  "apply_study_annotations two_image_study demo_study_annotations ''images''
   = Some (PImages [(''IM1'', demo_image), (''IM2'', two_ngff_image)])"
  by (simp_all add: apply_study_annotations_lookup demo_study_annotations_def study_images)

lemma annotated_image_representations:
  "apply_image_annotations demo_image demo_image_annotations ''representations''
   = Some (PReps 0)"
  "apply_image_annotations two_ngff_image name_annotations ''representations''
   = Some (PReps (Suc 0))"
  by (simp_all add: apply_image_annotations_lookup demo_image_annotations_def
      name_annotations_def image_simps)

lemma demo_env_simps:
  "get_study demo_env ''S-BIAD1'' = Inr (demo_study, demo_heap)"
  "get_study_annotations demo_env a = Inr demo_study_annotations"
  "get_image_annotations demo_env a i = Inr demo_image_annotations"
  "get_representations demo_env a i = Inr [thumbnail_rep, raw_rep]"
  by (simp_all add: demo_env_def)

lemma demo_annotate_image:
  "annotate_image demo_env ''S-BIAD1'' ''IM1'' demo_image demo_heap
   = Inr (demo_merged_image, demo_merged_heap)"
  by (simp add: annotate_image_def demo_env_simps iadd_representations_def
      annotated_image_representations demo_merged_image_def demo_merged_heap_def
      demo_heap_simps)

lemma load_demo:
  "load_and_annotate_study demo_env ''S-BIAD1'' = Inr (demo_merged, demo_merged_heap)"
  by (simp add: load_and_annotate_study_def demo_env_simps annotated_study_images
      demo_annotate_image demo_merged_def)

lemma demo_merged_images: "demo_merged ''images'' = Some (PImages [(''IM1'', demo_merged_image)])"
  by (simp add: demo_merged_def)

lemma two_env_simps:
  "get_study two_env a = Inr (two_image_study, demo_heap)"
  "get_study_annotations two_env a = Inr demo_study_annotations"
  "get_image_annotations two_env a ''IM1'' = Inr demo_image_annotations"
  "get_image_annotations two_env a ''IM2'' = Inr name_annotations"
  "get_representations two_env a i = Inr [thumbnail_rep, raw_rep]"
  by (simp_all add: two_env_def demo_env_def)

lemma two_annotate_first:
  "annotate_image two_env ''S-BIAD1'' ''IM1'' demo_image demo_heap
   = Inr (demo_merged_image, demo_merged_heap)"
  by (simp add: annotate_image_def two_env_simps iadd_representations_def
      annotated_image_representations demo_merged_image_def demo_merged_heap_def
      demo_heap_simps)

lemma demo_merged_heap_simps:
  "demo_merged_heap 0 = [raw_rep, thumbnail_rep, raw_rep]"
  "demo_merged_heap (Suc 0) = [ngff_a, raw_rep, ngff_b]"
  by (simp_all add: demo_merged_heap_def demo_heap_def)

lemma two_annotate_second:
  "annotate_image two_env ''S-BIAD1'' ''IM2'' two_ngff_image demo_merged_heap
   = Inr (two_merged_image, two_merged_heap)"
  by (simp add: annotate_image_def two_env_simps iadd_representations_def
      annotated_image_representations two_merged_image_def two_merged_heap_def
      demo_merged_heap_simps demo_merged_heap_def demo_heap_simps)

lemma two_annotate_images:
  "annotate_images two_env ''S-BIAD1'' [(''IM1'', demo_image), (''IM2'', two_ngff_image)] demo_heap
   = Inr ([(''IM1'', demo_merged_image), (''IM2'', two_merged_image)], two_merged_heap)"
  by (simp add: two_annotate_first two_annotate_second)

lemma load_two:
  "load_and_annotate_study two_env ''S-BIAD1'' = Inr (two_merged, two_merged_heap)"
  by (simp add: load_and_annotate_study_def two_env_simps annotated_study_images
      two_annotate_first two_annotate_second two_merged_def)

lemma two_merged_images:
  "two_merged ''images''
   = Some (PImages [(''IM1'', demo_merged_image), (''IM2'', two_merged_image)])"
  by (simp add: two_merged_def)

lemma failing_env_simps:
  "get_study failing_env a = Inr (two_image_study, demo_heap)"
  "get_study_annotations failing_env a = Inr demo_study_annotations"
  "get_image_annotations failing_env a ''IM1'' = Inr demo_image_annotations"
  "get_image_annotations failing_env a ''IM2'' = Inr name_annotations"
  "get_representations failing_env a ''IM1'' = Inr [thumbnail_rep, raw_rep]"
  "get_representations failing_env a ''IM2'' = Inl (Raised ''network error'')"
  by (simp_all add: failing_env_def two_env_def demo_env_def)

lemma failing_annotate_first:
  "annotate_images failing_env ''S-BIAD1'' [(''IM1'', demo_image)] demo_heap
   = Inr ([(''IM1'', demo_merged_image)], demo_merged_heap)"
  by (simp add: annotate_image_def failing_env_simps iadd_representations_def
      annotated_image_representations demo_merged_image_def demo_merged_heap_def
      demo_heap_simps)

lemma two_image_study_split:
  "apply_study_annotations two_image_study demo_study_annotations ''images''
   = Some (PImages ([(''IM1'', demo_image)] @ (''IM2'', two_ngff_image) # []))"
  by (simp add: annotated_study_images)

lemma empty_env_simps:
  "get_study empty_env ''S-BIAD1'' = Inr (demo_study, demo_heap)"
  "get_study_annotations empty_env a = Inr []"
  "get_image_annotations empty_env a i = Inr []"
  "get_representations empty_env a i = Inr [thumbnail_rep, raw_rep]"
  by (simp_all add: empty_env_def demo_env_def)

lemma load_empty:
  "load_and_annotate_study empty_env ''S-BIAD1'' = Inr (empty_merged, demo_merged_heap)"
  by (simp add: load_and_annotate_study_def empty_env_simps apply_study_annotations_def
      dict_update_def study_images annotate_image_def iadd_representations_def
      image_simps empty_merged_def demo_merged_heap_def demo_heap_simps)

lemma cached_env_simps:
  "get_study cached_env ''S-BIAD1'' = Inr (demo_study, demo_heap)"
  "get_study_annotations cached_env a = Inr demo_study_annotations"
  "get_image_annotations cached_env a i =
     Inr [\<lparr>ia_accession_id = ''S-BIAD1'', ia_image_id = ''IM1'',
           ia_key = ''ome_metadata'', ia_value = ''from annotation''\<rparr>]"
  "get_representations cached_env a i = Inr [thumbnail_rep, raw_rep]"
  by (simp_all add: cached_env_def demo_env_def)

lemma load_cached:
  "load_and_annotate_study cached_env ''S-BIAD1'' = Inr (cached_merged, demo_merged_heap)"
proof -
  have i: "annotate_image cached_env ''S-BIAD1'' ''IM1'' demo_image demo_heap
           = Inr (cached_merged_image, demo_merged_heap)"
    by (simp add: annotate_image_def cached_env_simps iadd_representations_def
        image_simps cached_merged_image_def demo_merged_heap_def demo_heap_simps)
  show ?thesis
    by (simp add: load_and_annotate_study_def cached_env_simps annotated_study_images i
        cached_merged_def)
qed

lemma cached_merged_images:
  "cached_merged ''images'' = Some (PImages [(''IM1'', cached_merged_image)])"
  by (simp add: cached_merged_def)

lemma cached_merged_image_simps:
  "cached_merged_image ''representations'' = Some (PReps 0)"
  "cached_merged_image ''ome_metadata'' = Some (PStr ''from annotation'')"
  by (simp_all add: cached_merged_image_def image_simps)

lemma shared_env_simps:
  "get_study shared_env a = Inr (shared_study, demo_heap)"
  "get_study_annotations shared_env a = Inr []"
  "get_image_annotations shared_env a i = Inr []"
  "get_representations shared_env a ''IM1'' = Inr [thumbnail_rep]"
  "get_representations shared_env a ''IM3'' = Inr [ngff_a]"
  by (simp_all add: shared_env_def)

lemma shared_first:
  "annotate_images shared_env ''S-BIAD1'' [(''IM1'', demo_image)] demo_heap
   = Inr ([(''IM1'', demo_image)], demo_heap(0 := [raw_rep, thumbnail_rep]))"
  by (simp add: annotate_image_def shared_env_simps iadd_representations_def image_simps
      demo_heap_simps)

lemma shared_both:
  "annotate_images shared_env ''S-BIAD1'' [(''IM1'', demo_image), (''IM3'', shared_image)] demo_heap
   = Inr ([(''IM1'', demo_image), (''IM3'', shared_image)],
          demo_heap(0 := [raw_rep, thumbnail_rep, ngff_a]))"
  by (simp add: annotate_image_def shared_env_simps iadd_representations_def image_simps
      demo_heap_simps)

lemma load_shared:
  "load_and_annotate_study shared_env ''S-BIAD1''
   = Inr (shared_study, demo_heap(0 := [raw_rep, thumbnail_rep, ngff_a]))"
proof -
  have "shared_study(''images'' \<mapsto> PImages [(''IM1'', demo_image), (''IM3'', shared_image)])
        = shared_study"
    by (rule map_upd_triv) (rule study_images(3))
  then show ?thesis
    by (simp add: load_and_annotate_study_def shared_env_simps apply_study_annotations_def
        dict_update_def study_images shared_both del: annotate_images.simps)
qed

subsection \<open>The accessor\<close>

lemma ome_metadata_cached:
  "self ''ome_metadata'' = Some v \<Longrightarrow> v \<noteq> PNone \<Longrightarrow>
   ome_metadata lib h self log = (Inr v, self, log)"
  by (simp add: ome_metadata_def dict_get_def)

lemma access_times_cached:
  "self ''ome_metadata'' = Some v \<Longrightarrow> v \<noteq> PNone \<Longrightarrow>
   access_times lib h n self log = (replicate n (Inr v), self, log)"
  by (induction n) (simp_all add: ome_metadata_cached)

lemma dict_get_uncached:
  "self ''ome_metadata'' = None \<or> self ''ome_metadata'' = Some PNone \<Longrightarrow>
   dict_get self ''ome_metadata'' PNone = PNone"
  by (auto simp: dict_get_def)

lemma ome_metadata_first_access:
  assumes "self ''ome_metadata'' = None \<or> self ''ome_metadata'' = Some PNone"
    and "self ''representations'' = Some (PReps a)"
    and "filter (\<lambda>rep. rep_type rep = Some ''ome_ngff'') (h a) \<noteq> []"
  shows "ome_metadata lib h self log =
     (case ome_metadata_uri_of lib (last (filter (\<lambda>rep. rep_type rep = Some ''ome_ngff'') (h a))) of
        Inl e \<Rightarrow> (Inl e, self, log)
      | Inr u \<Rightarrow>
          (case ome_xml_url_parse lib u log of
             (Inl e, log') \<Rightarrow> (Inl e, self, log')
           | (Inr m, log') \<Rightarrow> (Inr (POME m), self(''ome_metadata'' \<mapsto> POME m), log')))"
  using assms(3)
  by (simp add: ome_metadata_def dict_get_uncached[of self, OF assms(1)] assms(2)
      ngff_representations_def list_pop_def)

lemma ome_xml_url_parse_log:
  "ome_xml_url_parse lib u log = (r, log') \<Longrightarrow> log' = log @ [u]"
  by (auto simp: ome_xml_url_parse_def split: sum.splits if_splits)

lemma ome_metadata_Inr:
  assumes "self ''representations'' = Some (PReps a)"
    and "filter (\<lambda>rep. rep_type rep = Some ''ome_ngff'') (h a) \<noteq> []"
    and "ome_metadata lib h self log = (Inr m, self1, log1)"
  shows "self1 ''ome_metadata'' = Some m \<and> m \<noteq> PNone \<and> length log1 \<le> length log + 1"
proof (cases "self ''ome_metadata'' = None \<or> self ''ome_metadata'' = Some PNone")
  case True
  note f = ome_metadata_first_access[of self a h lib log, OF True assms(1) assms(2)]
  show ?thesis
  proof (cases "ome_metadata_uri_of lib
                  (last (filter (\<lambda>rep. rep_type rep = Some ''ome_ngff'') (h a)))")
    case (Inl e)
    with f assms(3) show ?thesis by simp
  next
    case (Inr u)
    obtain r log' where p: "ome_xml_url_parse lib u log = (r, log')"
      by (cases "ome_xml_url_parse lib u log")
    from ome_xml_url_parse_log[OF p] have l: "log' = log @ [u]" .
    show ?thesis
    proof (cases r)
      case (Inl e)
      with f assms(3) Inr p show ?thesis by simp
    next
      case r: (Inr x)
      with f assms(3) Inr p have "m = POME x" "self1 = self(''ome_metadata'' \<mapsto> POME x)"
        "log1 = log'"
        by simp_all
      with l show ?thesis by simp
    qed
  qed
next
  case False
  then obtain v where v: "self ''ome_metadata'' = Some v" "v \<noteq> PNone"
    by (cases "self ''ome_metadata''") auto
  from ome_metadata_cached[of self v lib h log, OF v] assms(3) v show ?thesis by simp
qed

text \<open>An access that raises leaves the object as it was.\<close>

lemma ome_metadata_Inl:
  "ome_metadata lib h self log = (Inl e, self1, log1) \<Longrightarrow> self1 = self"
  by (auto simp: ome_metadata_def Let_def split: sum.splits if_splits prod.splits)

lemma demo_uri_a:
  "ome_metadata_uri_of demo_lib ngff_a = Inr ''https://example.org/a.zarr/OME/METADATA.ome.xml''"
  by (simp add: ome_metadata_uri_of_def demo_lib_def demo_urlparse_def ngff_a_def)

lemma demo_uri_b:
  "ome_metadata_uri_of demo_lib ngff_b = Inr ''https://example.org/b.zarr/OME/METADATA.ome.xml''"
  by (simp add: ome_metadata_uri_of_def demo_lib_def demo_urlparse_def ngff_b_def)

lemma down_uri_b:
  "ome_metadata_uri_of down_lib ngff_b = Inr ''https://example.org/b.zarr/OME/METADATA.ome.xml''"
  by (simp add: ome_metadata_uri_of_def down_lib_def demo_lib_def demo_urlparse_def ngff_b_def)

lemma demo_fetch_b:
  "ome_xml_url_parse demo_lib ''https://example.org/b.zarr/OME/METADATA.ome.xml'' log
   = (Inr (OME ''<OME b/>''), log @ [''https://example.org/b.zarr/OME/METADATA.ome.xml''])"
  by (simp add: ome_xml_url_parse_def demo_lib_def demo_requests_get_def)

lemma down_fetch:
  "ome_xml_url_parse down_lib u log = (Inl AssertionError, log @ [u])"
  by (simp add: ome_xml_url_parse_def down_lib_def)

lemma demo_ngff_filter:
  "filter (\<lambda>rep. rep_type rep = Some ''ome_ngff'') (demo_heap (Suc 0)) = [ngff_a, ngff_b]"
  "filter (\<lambda>rep. rep_type rep = Some ''ome_ngff'') (demo_heap 0) = []"
  "filter (\<lambda>rep. rep_type rep = Some ''ome_ngff'') (demo_merged_heap 0) = []"
  by (simp_all add: demo_heap_simps demo_merged_heap_simps rep_type_simps)

lemma demo_ngff_present:
  "filter (\<lambda>rep. rep_type rep = Some ''ome_ngff'') (demo_heap (Suc 0)) \<noteq> []"
  unfolding demo_ngff_filter by simp

lemma ome_demo_two:
  "ome_metadata demo_lib demo_heap two_ngff_image []
   = (Inr (POME (OME ''<OME b/>'')),
      two_ngff_image(''ome_metadata'' \<mapsto> POME (OME ''<OME b/>'')),
      [''https://example.org/b.zarr/OME/METADATA.ome.xml''])"
  using ome_metadata_first_access[of two_ngff_image "Suc 0" demo_heap demo_lib "[]",
      OF disjI1[OF image_simps(4)] image_simps(3) demo_ngff_present]
  unfolding demo_ngff_filter by (simp add: demo_uri_b demo_fetch_b)

lemma ome_down_two:
  "ome_metadata down_lib demo_heap two_ngff_image log
   = (Inl AssertionError, two_ngff_image,
      log @ [''https://example.org/b.zarr/OME/METADATA.ome.xml''])"
  using ome_metadata_first_access[of two_ngff_image "Suc 0" demo_heap down_lib log,
      OF disjI1[OF image_simps(4)] image_simps(3) demo_ngff_present]
  unfolding demo_ngff_filter by (simp add: down_uri_b down_fetch)

subsection \<open>Serialisation\<close>


















section \<open>The claims\<close>

text \<open>
  C9. The two ways of applying annotations agree: collecting the annotations into a
  dictionary and updating the instance dictionary with it in one step (as done for the
  study) gives the same instance dictionary as storing each annotation in list order (as
  done for an image), whenever the two lists carry the same keys and values in the same
  order.
\<close>

theorem annotation_strategies_equivalent:
  assumes "map (\<lambda>a. (sa_key a, sa_value a)) sas = map (\<lambda>a. (ia_key a, ia_value a)) ias"
  shows "apply_study_annotations obj sas = apply_image_annotations obj ias"
proof -
  have "dict_update obj Map.empty = obj"
    by (simp add: dict_update_def)
  with strategies_agree[OF assms, of obj Map.empty] show ?thesis
    by (simp add: apply_study_annotations_def)
qed

theorem annotation_strategies_equivalent_witness:
  "map (\<lambda>a. (sa_key a, sa_value a)) demo_study_annotations
     = map (\<lambda>a. (ia_key a, ia_value a))
         [\<lparr>ia_accession_id = ''S-BIAD1'', ia_image_id = ''IM1'', ia_key = ''organism'',
           ia_value = ''mouse''\<rparr>,
          \<lparr>ia_accession_id = ''S-BIAD1'', ia_image_id = ''IM1'', ia_key = ''organism'',
           ia_value = ''human''\<rparr>]
   \<and> apply_study_annotations demo_image demo_study_annotations
     = apply_image_annotations demo_image
         [\<lparr>ia_accession_id = ''S-BIAD1'', ia_image_id = ''IM1'', ia_key = ''organism'',
           ia_value = ''mouse''\<rparr>,
          \<lparr>ia_accession_id = ''S-BIAD1'', ia_image_id = ''IM1'', ia_key = ''organism'',
           ia_value = ''human''\<rparr>]"
proof -
  have h: "map (\<lambda>a. (sa_key a, sa_value a)) demo_study_annotations
     = map (\<lambda>a. (ia_key a, ia_value a))
         [\<lparr>ia_accession_id = ''S-BIAD1'', ia_image_id = ''IM1'', ia_key = ''organism'',
           ia_value = ''mouse''\<rparr>,
          \<lparr>ia_accession_id = ''S-BIAD1'', ia_image_id = ''IM1'', ia_key = ''organism'',
           ia_value = ''human''\<rparr>]"
    by (simp add: demo_study_annotations_def)
  from h annotation_strategies_equivalent[OF h, of demo_image] show ?thesis
    by (rule conjI)
qed

text \<open>
  C1. Last write wins. When \<^verbatim>\<open>load_and_annotate_study\<close> returns a study, every key of a
  study annotation holds, in the study, the value of the last study annotation of the
  list with that key. The returned study has an image for every image of the retrieved
  study, in the same order and under the same id, and in each of them every key of an
  annotation of that image holds the value of the last annotation of the image with that
  key.
\<close>

theorem last_annotation_wins:
  assumes "load_and_annotate_study env acc = Inr (s', h')"
  shows "\<exists>s h sas imgs imgs'.
           get_study env acc = Inr (s, h) \<and> get_study_annotations env acc = Inr sas \<and>
           s ''images'' = Some (PImages imgs) \<and> s' ''images'' = Some (PImages imgs') \<and>
           (\<forall>k \<in> sa_key ` set sas.
              s' k = Some (PStr (sa_value (last (filter (\<lambda>a. sa_key a = k) sas))))) \<and>
           list_all2
             (\<lambda>(iid, img) (iid', img'). iid' = iid \<and>
                (\<exists>ias. get_image_annotations env acc iid = Inr ias \<and>
                   (\<forall>k \<in> ia_key ` set ias.
                      img' k = Some (PStr (ia_value (last (filter (\<lambda>a. ia_key a = k) ias)))))))
             imgs imgs'"
proof -
  from assms obtain s h sas imgs imgs' where a:
    "get_study env acc = Inr (s, h)"
    "get_study_annotations env acc = Inr sas"
    "''images'' \<notin> sa_key ` set sas"
    "s ''images'' = Some (PImages imgs)"
    "annotate_images env acc imgs h = Inr (imgs', h')"
    "s' = (apply_study_annotations s sas)(''images'' \<mapsto> PImages imgs')"
    by (auto elim: load_and_annotate_study_Inr)
  from a(6) have i: "s' ''images'' = Some (PImages imgs')" by simp
  have study: "\<forall>k \<in> sa_key ` set sas.
      s' k = Some (PStr (sa_value (last (filter (\<lambda>a. sa_key a = k) sas))))"
  proof
    fix k
    assume k: "k \<in> sa_key ` set sas"
    have "k \<noteq> ''images''"
    proof
      assume "k = ''images''"
      with k have "''images'' \<in> sa_key ` set sas" by simp
      with a(3) show False by (rule notE)
    qed
    with a(6) k show "s' k = Some (PStr (sa_value (last (filter (\<lambda>a. sa_key a = k) sas))))"
      by (simp add: apply_study_annotations_lookup)
  qed
  have images: "list_all2
      (\<lambda>(iid, img) (iid', img'). iid' = iid \<and>
         (\<exists>ias. get_image_annotations env acc iid = Inr ias \<and>
            (\<forall>k \<in> ia_key ` set ias.
               img' k = Some (PStr (ia_value (last (filter (\<lambda>a. ia_key a = k) ias)))))))
      imgs imgs'"
  proof (rule list_all2_mono[OF annotate_images_Inr[OF a(5)]])
    fix x y
    assume p: "(case x of (iid, img) \<Rightarrow> \<lambda>(iid', img'). iid' = iid \<and>
                 (\<exists>h1 h2. annotate_image env acc iid img h1 = Inr (img', h2))) y"
    obtain iid img where x: "x = (iid, img)" by (cases x)
    obtain iid' img' where y: "y = (iid', img')" by (cases y)
    from p x y obtain h1 h2 where e: "iid' = iid"
      and ai: "annotate_image env acc iid img h1 = Inr (img', h2)"
      by auto
    from ai obtain ias where g: "get_image_annotations env acc iid = Inr ias"
      by (auto elim: annotate_image_Inr)
    have "\<forall>k \<in> ia_key ` set ias.
            img' k = Some (PStr (ia_value (last (filter (\<lambda>a. ia_key a = k) ias))))"
      using annotate_image_keeps_annotation[OF ai g] by blast
    with g e show "(case x of (iid, img) \<Rightarrow> \<lambda>(iid', img'). iid' = iid \<and>
         (\<exists>ias. get_image_annotations env acc iid = Inr ias \<and>
            (\<forall>k \<in> ia_key ` set ias.
               img' k = Some (PStr (ia_value (last (filter (\<lambda>a. ia_key a = k) ias))))))) y"
      unfolding x y by blast
  qed
  from a(1) a(2) a(4) i study images show ?thesis by blast
qed

theorem last_annotation_wins_witness:
  "load_and_annotate_study two_env ''S-BIAD1'' = Inr (two_merged, two_merged_heap)
   \<and> two_merged ''organism'' = Some (PStr ''human'')
   \<and> two_merged ''images''
     = Some (PImages [(''IM1'', demo_merged_image), (''IM2'', two_merged_image)])
   \<and> demo_merged_image ''dimensions'' = Some (PStr ''5D'')
   \<and> two_merged_image ''name'' = Some (PStr ''second'')"
proof -
  from last_annotation_wins[OF load_two] obtain s h sas imgs imgs' where w:
    "get_study two_env ''S-BIAD1'' = Inr (s, h)"
    "get_study_annotations two_env ''S-BIAD1'' = Inr sas"
    "s ''images'' = Some (PImages imgs)"
    "two_merged ''images'' = Some (PImages imgs')"
    "\<forall>k \<in> sa_key ` set sas.
       two_merged k = Some (PStr (sa_value (last (filter (\<lambda>a. sa_key a = k) sas))))"
    "list_all2
       (\<lambda>(iid, img) (iid', img'). iid' = iid \<and>
          (\<exists>ias. get_image_annotations two_env ''S-BIAD1'' iid = Inr ias \<and>
             (\<forall>k \<in> ia_key ` set ias.
                img' k = Some (PStr (ia_value (last (filter (\<lambda>a. ia_key a = k) ias)))))))
       imgs imgs'"
    by blast
  from w(1) have s: "s = two_image_study" by (simp add: two_env_simps)
  from w(2) have sas: "sas = demo_study_annotations" by (simp add: two_env_simps)
  from w(3) s have imgs: "imgs = [(''IM1'', demo_image), (''IM2'', two_ngff_image)]"
    by (simp add: study_images)
  from w(4) have imgs': "imgs' = [(''IM1'', demo_merged_image), (''IM2'', two_merged_image)]"
    by (simp add: two_merged_images)
  have "''organism'' \<in> sa_key ` set demo_study_annotations"
    by (simp add: demo_study_annotations_def)
  with w(5) sas have "two_merged ''organism''
      = Some (PStr (sa_value (last (filter (\<lambda>a. sa_key a = ''organism'') demo_study_annotations))))"
    by (rule_tac bspec) simp_all
  then have o: "two_merged ''organism'' = Some (PStr ''human'')"
    by (simp add: demo_study_annotations_def)
  from w(6) have
    a1: "\<forall>k \<in> ia_key ` set demo_image_annotations.
           demo_merged_image k
           = Some (PStr (ia_value (last (filter (\<lambda>a. ia_key a = k) demo_image_annotations))))"
    and
    a2: "\<forall>k \<in> ia_key ` set name_annotations.
           two_merged_image k
           = Some (PStr (ia_value (last (filter (\<lambda>a. ia_key a = k) name_annotations))))"
    unfolding imgs imgs' by (simp_all add: two_env_simps)
  have "''dimensions'' \<in> ia_key ` set demo_image_annotations"
    by (simp add: demo_image_annotations_def)
  with a1 have "demo_merged_image ''dimensions''
      = Some (PStr (ia_value (last (filter (\<lambda>a. ia_key a = ''dimensions'')
                                     demo_image_annotations))))"
    by (rule bspec)
  then have d: "demo_merged_image ''dimensions'' = Some (PStr ''5D'')"
    by (simp add: demo_image_annotations_def)
  have "''name'' \<in> ia_key ` set name_annotations"
    by (simp add: name_annotations_def)
  with a2 have "two_merged_image ''name''
      = Some (PStr (ia_value (last (filter (\<lambda>a. ia_key a = ''name'') name_annotations))))"
    by (rule bspec)
  then have n: "two_merged_image ''name'' = Some (PStr ''second'')"
    by (simp add: name_annotations_def)
  from load_two o two_merged_images d n show ?thesis by (intro conjI)
qed

text \<open>
  C2. Appending the fetched representations is additive and keeps the order. When
  \<^verbatim>\<open>load_and_annotate_study\<close> returns, the returned study has the images of the retrieved
  one, in the same order and under the same ids. For every image, the loop reaches it in
  the heap \<open>before\<close> that the images in front of it have left and leaves the heap \<open>after\<close>,
  in which the list of the image is as long as it was plus the fetched list, starts with
  what it was and ends with the fetched list, whatever the fetched list repeats; no other
  list is touched. When no two images hold the same list object, the list of every image
  in the returned heap is its list in the retrieved heap followed by its fetched list.
\<close>

theorem representations_appended:
  assumes "load_and_annotate_study env acc = Inr (s', h')"
    and "get_study env acc = Inr (s, h0)"
  shows "\<exists>imgs imgs'.
           s ''images'' = Some (PImages imgs) \<and> s' ''images'' = Some (PImages imgs') \<and>
           map fst imgs' = map fst imgs \<and>
           annotate_images env acc imgs h0 = Inr (imgs', h') \<and>
           (\<forall>pre iid img post. imgs = pre @ (iid, img) # post \<longrightarrow>
              (\<exists>pre' img' before after a fetched.
                 annotate_images env acc pre h0 = Inr (pre', before) \<and>
                 annotate_images env acc (pre @ [(iid, img)]) h0
                   = Inr (pre' @ [(iid, img')], after) \<and>
                 img ''representations'' = Some (PReps a) \<and>
                 img' ''representations'' = Some (PReps a) \<and>
                 get_representations env acc iid = Inr fetched \<and>
                 length (after a) = length (before a) + length fetched \<and>
                 take (length (before a)) (after a) = before a \<and>
                 drop (length (before a)) (after a) = fetched \<and>
                 (\<forall>b. b \<noteq> a \<longrightarrow> after b = before b))) \<and>
           (distinct (map (\<lambda>p. snd p ''representations'') imgs) \<longrightarrow>
              list_all2
                (\<lambda>(iid, img) (iid', img'). iid' = iid \<and>
                   (\<exists>a fetched.
                      img ''representations'' = Some (PReps a) \<and>
                      img' ''representations'' = Some (PReps a) \<and>
                      get_representations env acc iid = Inr fetched \<and>
                      h' a = h0 a @ fetched))
                imgs imgs')"
proof -
  from assms(1) obtain s0 h sas imgs imgs' where a:
    "get_study env acc = Inr (s0, h)"
    "s0 ''images'' = Some (PImages imgs)"
    "annotate_images env acc imgs h = Inr (imgs', h')"
    "s' = (apply_study_annotations s0 sas)(''images'' \<mapsto> PImages imgs')"
    by (auto elim: load_and_annotate_study_Inr)
  from a(1) assms(2) have e: "s0 = s" "h = h0" by simp_all
  note run = a(3)[unfolded e]
  have step: "\<exists>pre' img' before after a fetched.
      annotate_images env acc pre h0 = Inr (pre', before) \<and>
      annotate_images env acc (pre @ [(iid, img)]) h0 = Inr (pre' @ [(iid, img')], after) \<and>
      img ''representations'' = Some (PReps a) \<and>
      img' ''representations'' = Some (PReps a) \<and>
      get_representations env acc iid = Inr fetched \<and>
      length (after a) = length (before a) + length fetched \<and>
      take (length (before a)) (after a) = before a \<and>
      drop (length (before a)) (after a) = fetched \<and>
      (\<forall>b. b \<noteq> a \<longrightarrow> after b = before b)"
    if split: "imgs = pre @ (iid, img) # post" for pre iid img post
  proof -
    from run split obtain pre' before where p:
      "annotate_images env acc pre h0 = Inr (pre', before)"
      by (auto simp: annotate_images_append split: sum.splits)
    from run split p obtain img' after where q:
      "annotate_image env acc iid img before = Inr (img', after)"
      by (auto simp: annotate_images_append split: sum.splits)
    from annotate_image_representations[OF q] obtain a fetched where r:
      "img ''representations'' = Some (PReps a)"
      "img' ''representations'' = Some (PReps a)"
      "get_representations env acc iid = Inr fetched"
      "after = before(a := before a @ fetched)"
      by blast
    from p q have "annotate_images env acc (pre @ [(iid, img)]) h0
                   = Inr (pre' @ [(iid, img')], after)"
      by (simp add: annotate_images_append)
    moreover from r(4) have "length (after a) = length (before a) + length fetched"
      "take (length (before a)) (after a) = before a"
      "drop (length (before a)) (after a) = fetched"
      "\<forall>b. b \<noteq> a \<longrightarrow> after b = before b"
      by simp_all
    ultimately show ?thesis using p r(1) r(2) r(3) by blast
  qed
  have unshared: "list_all2
      (\<lambda>(iid, img) (iid', img'). iid' = iid \<and>
         (\<exists>a fetched.
            img ''representations'' = Some (PReps a) \<and>
            img' ''representations'' = Some (PReps a) \<and>
            get_representations env acc iid = Inr fetched \<and>
            h' a = h0 a @ fetched))
      imgs imgs'"
    if "distinct (map (\<lambda>p. snd p ''representations'') imgs)"
    by (rule annotate_images_unshared[OF run that])
  from a(4) have "s' ''images'' = Some (PImages imgs')" by simp
  with a(2) e(1) annotate_images_ids[OF run] run step unshared show ?thesis
    by blast
qed

theorem representations_appended_witness:
  "load_and_annotate_study shared_env ''S-BIAD1''
     = Inr (shared_study, demo_heap(0 := [raw_rep, thumbnail_rep, ngff_a]))
   \<and> get_study shared_env ''S-BIAD1'' = Inr (shared_study, demo_heap)
   \<and> (\<exists>pre' img' before after a fetched.
         annotate_images shared_env ''S-BIAD1'' [(''IM1'', demo_image)] demo_heap
           = Inr (pre', before) \<and>
         annotate_images shared_env ''S-BIAD1'' ([(''IM1'', demo_image)] @ [(''IM3'', shared_image)])
             demo_heap
           = Inr (pre' @ [(''IM3'', img')], after) \<and>
         shared_image ''representations'' = Some (PReps a) \<and>
         img' ''representations'' = Some (PReps a) \<and>
         get_representations shared_env ''S-BIAD1'' ''IM3'' = Inr fetched \<and>
         length (after a) = length (before a) + length fetched \<and>
         take (length (before a)) (after a) = before a \<and>
         drop (length (before a)) (after a) = fetched)
   \<and> load_and_annotate_study two_env ''S-BIAD1'' = Inr (two_merged, two_merged_heap)
   \<and> get_study two_env ''S-BIAD1'' = Inr (two_image_study, demo_heap)
   \<and> two_merged_heap 0 = demo_heap 0 @ [thumbnail_rep, raw_rep]
   \<and> two_merged_heap (Suc 0) = demo_heap (Suc 0) @ [thumbnail_rep, raw_rep]"
proof -
  from representations_appended[OF load_shared shared_env_simps(1)]
  obtain imgs imgs' where w:
    "shared_study ''images'' = Some (PImages imgs)"
    "\<forall>pre iid img post. imgs = pre @ (iid, img) # post \<longrightarrow>
       (\<exists>pre' img' before after a fetched.
          annotate_images shared_env ''S-BIAD1'' pre demo_heap = Inr (pre', before) \<and>
          annotate_images shared_env ''S-BIAD1'' (pre @ [(iid, img)]) demo_heap
            = Inr (pre' @ [(iid, img')], after) \<and>
          img ''representations'' = Some (PReps a) \<and>
          img' ''representations'' = Some (PReps a) \<and>
          get_representations shared_env ''S-BIAD1'' iid = Inr fetched \<and>
          length (after a) = length (before a) + length fetched \<and>
          take (length (before a)) (after a) = before a \<and>
          drop (length (before a)) (after a) = fetched \<and>
          (\<forall>b. b \<noteq> a \<longrightarrow> after b = before b))"
    by blast
  from w(1) have "imgs = [(''IM1'', demo_image)] @ (''IM3'', shared_image) # []"
    by (simp add: study_images)
  with w(2) have "\<exists>pre' img' before after a fetched.
          annotate_images shared_env ''S-BIAD1'' [(''IM1'', demo_image)] demo_heap
            = Inr (pre', before) \<and>
          annotate_images shared_env ''S-BIAD1'' ([(''IM1'', demo_image)] @ [(''IM3'', shared_image)])
              demo_heap
            = Inr (pre' @ [(''IM3'', img')], after) \<and>
          shared_image ''representations'' = Some (PReps a) \<and>
          img' ''representations'' = Some (PReps a) \<and>
          get_representations shared_env ''S-BIAD1'' ''IM3'' = Inr fetched \<and>
          length (after a) = length (before a) + length fetched \<and>
          take (length (before a)) (after a) = before a \<and>
          drop (length (before a)) (after a) = fetched \<and>
          (\<forall>b. b \<noteq> a \<longrightarrow> after b = before b)"
    by blast
  then have shared: "\<exists>pre' img' before after a fetched.
          annotate_images shared_env ''S-BIAD1'' [(''IM1'', demo_image)] demo_heap
            = Inr (pre', before) \<and>
          annotate_images shared_env ''S-BIAD1'' ([(''IM1'', demo_image)] @ [(''IM3'', shared_image)])
              demo_heap
            = Inr (pre' @ [(''IM3'', img')], after) \<and>
          shared_image ''representations'' = Some (PReps a) \<and>
          img' ''representations'' = Some (PReps a) \<and>
          get_representations shared_env ''S-BIAD1'' ''IM3'' = Inr fetched \<and>
          length (after a) = length (before a) + length fetched \<and>
          take (length (before a)) (after a) = before a \<and>
          drop (length (before a)) (after a) = fetched"
    by blast
  from representations_appended[OF load_two two_env_simps(1)]
  obtain imgs2 imgs2' where v:
    "two_image_study ''images'' = Some (PImages imgs2)"
    "two_merged ''images'' = Some (PImages imgs2')"
    "distinct (map (\<lambda>p. snd p ''representations'') imgs2) \<longrightarrow>
       list_all2
         (\<lambda>(iid, img) (iid', img'). iid' = iid \<and>
            (\<exists>a fetched.
               img ''representations'' = Some (PReps a) \<and>
               img' ''representations'' = Some (PReps a) \<and>
               get_representations two_env ''S-BIAD1'' iid = Inr fetched \<and>
               two_merged_heap a = demo_heap a @ fetched))
         imgs2 imgs2'"
    by blast
  from v(1) have i2: "imgs2 = [(''IM1'', demo_image), (''IM2'', two_ngff_image)]"
    by (simp add: study_images)
  from v(2) have i2': "imgs2' = [(''IM1'', demo_merged_image), (''IM2'', two_merged_image)]"
    by (simp add: two_merged_images)
  have "distinct (map (\<lambda>p. snd p ''representations'') imgs2)"
    unfolding i2 by (simp add: image_simps)
  with v(3) have "list_all2
         (\<lambda>(iid, img) (iid', img'). iid' = iid \<and>
            (\<exists>a fetched.
               img ''representations'' = Some (PReps a) \<and>
               img' ''representations'' = Some (PReps a) \<and>
               get_representations two_env ''S-BIAD1'' iid = Inr fetched \<and>
               two_merged_heap a = demo_heap a @ fetched))
         imgs2 imgs2'"
    by (rule mp)
  then have "two_merged_heap 0 = demo_heap 0 @ [thumbnail_rep, raw_rep]"
    "two_merged_heap (Suc 0) = demo_heap (Suc 0) @ [thumbnail_rep, raw_rep]"
    unfolding i2 i2' by (simp_all add: image_simps two_env_simps)
  with load_shared shared_env_simps(1) shared load_two two_env_simps(1) show ?thesis
    by (intro conjI)
qed

text \<open>
  C3. No local error handling. A failure of \<^verbatim>\<open>get_study\<close>, of \<^verbatim>\<open>get_study_annotations\<close>,
  or, after the images before it were merged, of \<^verbatim>\<open>get_image_annotations\<close> or
  \<^verbatim>\<open>get_representations\<close> for an image, is the result of \<^verbatim>\<open>load_and_annotate_study\<close>,
  unchanged: the caller gets the error and no study.
\<close>

theorem collaborator_errors_propagate:
  "(get_study env acc = Inl e \<longrightarrow> load_and_annotate_study env acc = Inl e)
   \<and> (get_study env acc = Inr (s, h) \<longrightarrow> get_study_annotations env acc = Inl e \<longrightarrow>
        load_and_annotate_study env acc = Inl e)
   \<and> (get_study env acc = Inr (s, h) \<longrightarrow> get_study_annotations env acc = Inr sas \<longrightarrow>
        apply_study_annotations s sas ''images'' = Some (PImages (pre @ (iid, img) # post)) \<longrightarrow>
        annotate_images env acc pre h = Inr (pre', h1) \<longrightarrow>
        get_image_annotations env acc iid = Inl e \<longrightarrow>
        load_and_annotate_study env acc = Inl e)
   \<and> (get_study env acc = Inr (s, h) \<longrightarrow> get_study_annotations env acc = Inr sas \<longrightarrow>
        apply_study_annotations s sas ''images'' = Some (PImages (pre @ (iid, img) # post)) \<longrightarrow>
        annotate_images env acc pre h = Inr (pre', h1) \<longrightarrow>
        get_image_annotations env acc iid = Inr ias \<longrightarrow>
        get_representations env acc iid = Inl e \<longrightarrow>
        load_and_annotate_study env acc = Inl e)"
proof (intro conjI impI)
  assume "get_study env acc = Inl e"
  then show "load_and_annotate_study env acc = Inl e"
    by (simp add: load_and_annotate_study_def)
next
  assume "get_study env acc = Inr (s, h)" "get_study_annotations env acc = Inl e"
  then show "load_and_annotate_study env acc = Inl e"
    by (simp add: load_and_annotate_study_def)
next
  assume a: "get_study env acc = Inr (s, h)" "get_study_annotations env acc = Inr sas"
    "apply_study_annotations s sas ''images'' = Some (PImages (pre @ (iid, img) # post))"
    "annotate_images env acc pre h = Inr (pre', h1)"
    and f: "get_image_annotations env acc iid = Inl e"
  from f have "annotate_image env acc iid img h1 = Inl e"
    by (simp add: annotate_image_def)
  from load_images_fail[OF a this] show "load_and_annotate_study env acc = Inl e" .
next
  assume a: "get_study env acc = Inr (s, h)" "get_study_annotations env acc = Inr sas"
    "apply_study_annotations s sas ''images'' = Some (PImages (pre @ (iid, img) # post))"
    "annotate_images env acc pre h = Inr (pre', h1)"
    and f: "get_image_annotations env acc iid = Inr ias" "get_representations env acc iid = Inl e"
  from f have "annotate_image env acc iid img h1 = Inl e"
    by (simp add: annotate_image_def)
  from load_images_fail[OF a this] show "load_and_annotate_study env acc = Inl e" .
qed

theorem collaborator_errors_propagate_witness:
  "load_and_annotate_study demo_env ''unknown'' = Inl (Raised ''not found'')
   \<and> load_and_annotate_study
        (demo_env\<lparr>get_study_annotations := (\<lambda>a. Inl (Raised ''timeout''))\<rparr>) ''S-BIAD1''
      = Inl (Raised ''timeout'')
   \<and> load_and_annotate_study
        (demo_env\<lparr>get_image_annotations := (\<lambda>a i. Inl (Raised ''malformed''))\<rparr>) ''S-BIAD1''
      = Inl (Raised ''malformed'')
   \<and> load_and_annotate_study failing_env ''S-BIAD1'' = Inl (Raised ''network error'')"
proof (intro conjI)
  have "get_study demo_env ''unknown'' = Inl (Raised ''not found'')"
    by (simp add: demo_env_def)
  with collaborator_errors_propagate[of demo_env "''unknown''" "Raised ''not found''"]
  show "load_and_annotate_study demo_env ''unknown'' = Inl (Raised ''not found'')"
    by blast
next
  let ?env = "demo_env\<lparr>get_study_annotations := (\<lambda>a. Inl (Raised ''timeout''))\<rparr>"
  have "get_study ?env ''S-BIAD1'' = Inr (demo_study, demo_heap)"
    "get_study_annotations ?env ''S-BIAD1'' = Inl (Raised ''timeout'')"
    by (simp_all add: demo_env_def)
  with collaborator_errors_propagate[of ?env "''S-BIAD1''" "Raised ''timeout''" demo_study
      demo_heap]
  show "load_and_annotate_study ?env ''S-BIAD1'' = Inl (Raised ''timeout'')"
    by blast
next
  let ?env = "demo_env\<lparr>get_image_annotations := (\<lambda>a i. Inl (Raised ''malformed''))\<rparr>"
  have h: "get_study ?env ''S-BIAD1'' = Inr (demo_study, demo_heap)"
    "get_study_annotations ?env ''S-BIAD1'' = Inr demo_study_annotations"
    "apply_study_annotations demo_study demo_study_annotations ''images''
       = Some (PImages ([] @ (''IM1'', demo_image) # []))"
    "annotate_images ?env ''S-BIAD1'' [] demo_heap = Inr ([], demo_heap)"
    "get_image_annotations ?env ''S-BIAD1'' ''IM1'' = Inl (Raised ''malformed'')"
    by (simp_all add: demo_env_def annotated_study_images)
  from collaborator_errors_propagate[of ?env "''S-BIAD1''" "Raised ''malformed''" demo_study
      demo_heap demo_study_annotations "[]" "''IM1''" demo_image "[]" "[]" demo_heap,
      THEN conjunct2, THEN conjunct2, THEN conjunct1, rule_format, OF h]
  show "load_and_annotate_study ?env ''S-BIAD1'' = Inl (Raised ''malformed'')" .
next
  from collaborator_errors_propagate[of failing_env "''S-BIAD1''" "Raised ''network error''"
      two_image_study demo_heap demo_study_annotations "[(''IM1'', demo_image)]" "''IM2''"
      two_ngff_image "[]" "[(''IM1'', demo_merged_image)]" demo_merged_heap name_annotations,
      THEN conjunct2, THEN conjunct2, THEN conjunct2, rule_format,
      OF failing_env_simps(1) failing_env_simps(2) two_image_study_split failing_annotate_first
         failing_env_simps(4) failing_env_simps(6)]
  show "load_and_annotate_study failing_env ''S-BIAD1'' = Inl (Raised ''network error'')" .
qed

text \<open>
  C7. An empty annotation list changes nothing. Applying no annotations leaves the
  instance dictionary of a study and of an image as it was. In a run that returns, a
  study without annotations keeps every attribute but \<^verbatim>\<open>images\<close>, which keeps its ids in
  order, and an image without annotations keeps every attribute; the list its attribute
  \<^verbatim>\<open>representations\<close> names is changed by the append of the fetched representations alone.
\<close>

theorem empty_annotations_change_nothing:
  "apply_study_annotations study [] = study
   \<and> apply_image_annotations img [] = img
   \<and> (load_and_annotate_study env acc = Inr (s', h') \<longrightarrow> get_study env acc = Inr (s, h) \<longrightarrow>
        get_study_annotations env acc = Inr [] \<longrightarrow>
        (\<forall>k. k \<noteq> ''images'' \<longrightarrow> s' k = s k)
        \<and> (\<exists>imgs imgs'. s ''images'' = Some (PImages imgs)
              \<and> s' ''images'' = Some (PImages imgs') \<and> map fst imgs' = map fst imgs))
   \<and> (load_and_annotate_study env acc = Inr (s', h') \<longrightarrow> get_study env acc = Inr (s, h) \<longrightarrow>
        s ''images'' = Some (PImages imgs0) \<longrightarrow> s' ''images'' = Some (PImages imgs0') \<longrightarrow>
        list_all2
          (\<lambda>(iid, img) (iid', img'). iid' = iid \<and>
             (get_image_annotations env acc iid = Inr [] \<longrightarrow>
                (\<forall>k. k \<noteq> ''representations'' \<longrightarrow> img' k = img k) \<and> img' = img))
          imgs0 imgs0')"
proof (intro conjI impI)
  show "apply_study_annotations study [] = study"
    by (simp add: apply_study_annotations_def dict_update_def)
  show "apply_image_annotations img [] = img"
    by simp
next
  assume l: "load_and_annotate_study env acc = Inr (s', h')"
    and g: "get_study env acc = Inr (s, h)"
    and n: "get_study_annotations env acc = Inr []"
  from l obtain s0 h0 sas imgs imgs' where a:
    "get_study env acc = Inr (s0, h0)"
    "get_study_annotations env acc = Inr sas"
    "s0 ''images'' = Some (PImages imgs)"
    "annotate_images env acc imgs h0 = Inr (imgs', h')"
    "s' = (apply_study_annotations s0 sas)(''images'' \<mapsto> PImages imgs')"
    by (auto elim: load_and_annotate_study_Inr)
  from a(1) g a(2) n have e: "s0 = s" "sas = []" by simp_all
  from a(5) e show "\<forall>k. k \<noteq> ''images'' \<longrightarrow> s' k = s k"
    by (simp add: apply_study_annotations_def dict_update_def)
  from a(3) a(5) e annotate_images_ids[OF a(4)]
  show "\<exists>imgs imgs'. s ''images'' = Some (PImages imgs)
              \<and> s' ''images'' = Some (PImages imgs') \<and> map fst imgs' = map fst imgs"
    by simp
next
  assume l: "load_and_annotate_study env acc = Inr (s', h')"
    and g: "get_study env acc = Inr (s, h)"
    and i: "s ''images'' = Some (PImages imgs0)" and i': "s' ''images'' = Some (PImages imgs0')"
  from l obtain s0 h0 sas imgs imgs' where a:
    "get_study env acc = Inr (s0, h0)"
    "s0 ''images'' = Some (PImages imgs)"
    "annotate_images env acc imgs h0 = Inr (imgs', h')"
    "s' = (apply_study_annotations s0 sas)(''images'' \<mapsto> PImages imgs')"
    by (auto elim: load_and_annotate_study_Inr)
  from a(1) g have "s0 = s" by simp
  with a(2) a(4) i i' have e: "imgs = imgs0" "imgs' = imgs0'" by simp_all
  show "list_all2
          (\<lambda>(iid, img) (iid', img'). iid' = iid \<and>
             (get_image_annotations env acc iid = Inr [] \<longrightarrow>
                (\<forall>k. k \<noteq> ''representations'' \<longrightarrow> img' k = img k) \<and> img' = img))
          imgs0 imgs0'"
    by (rule list_all2_mono[OF annotate_images_Inr[OF a(3)[unfolded e]]])
       (auto dest: annotate_image_unannotated)
qed

theorem empty_annotations_change_nothing_witness:
  "load_and_annotate_study empty_env ''S-BIAD1'' = Inr (empty_merged, demo_merged_heap)
   \<and> get_study empty_env ''S-BIAD1'' = Inr (demo_study, demo_heap)
   \<and> get_study_annotations empty_env ''S-BIAD1'' = Inr []
   \<and> get_image_annotations empty_env ''S-BIAD1'' ''IM1'' = Inr []
   \<and> empty_merged ''organism'' = demo_study ''organism''
   \<and> empty_merged ''title'' = demo_study ''title''
   \<and> (\<exists>imgs imgs'. demo_study ''images'' = Some (PImages imgs)
         \<and> empty_merged ''images'' = Some (PImages imgs') \<and> map fst imgs' = map fst imgs)
   \<and> list_all2 (\<lambda>(iid, img) (iid', img'). iid' = iid \<and> img' = img)
       [(''IM1'', demo_image)] [(''IM1'', demo_image)]"
proof -
  note w = empty_annotations_change_nothing[of _ _ empty_env "''S-BIAD1''" empty_merged
      demo_merged_heap demo_study demo_heap,
      THEN conjunct2, THEN conjunct2, THEN conjunct1, rule_format,
      OF load_empty empty_env_simps(1) empty_env_simps(2)]
  have o: "empty_merged ''organism'' = demo_study ''organism''"
    by (rule w[THEN conjunct1, rule_format]) simp
  have t: "empty_merged ''title'' = demo_study ''title''"
    by (rule w[THEN conjunct1, rule_format]) simp
  have m: "empty_merged ''images'' = Some (PImages [(''IM1'', demo_image)])"
    by (simp add: empty_merged_def)
  from empty_annotations_change_nothing[of _ _ empty_env "''S-BIAD1''" empty_merged
      demo_merged_heap demo_study demo_heap "[(''IM1'', demo_image)]" "[(''IM1'', demo_image)]",
      THEN conjunct2, THEN conjunct2, THEN conjunct2, rule_format,
      OF load_empty empty_env_simps(1) study_images(1) m]
  have i: "list_all2 (\<lambda>(iid, img) (iid', img'). iid' = iid \<and> img' = img)
       [(''IM1'', demo_image)] [(''IM1'', demo_image)]"
    by (simp add: empty_env_simps)
  from load_empty empty_env_simps(1) empty_env_simps(2) empty_env_simps(3) o t w[THEN conjunct2] i
  show ?thesis by (intro conjI)
qed

text \<open>
  C4, as amended. On an image with a representation of type ome_ngff and nothing stored
  under \<^verbatim>\<open>ome_metadata\<close> yet, the accessor takes the LAST representation of type ome_ngff
  in the list (\<^verbatim>\<open>pop()\<close> removes the last element), parses its URI, replaces the path
  by the path's parent joined with \<^verbatim>\<open>OME/METADATA.ome.xml\<close>, leaves out parameters, query
  and fragment, requests that URI once, fails with AssertionError unless the status is
  200, and parses the content with validation switched off; the document is returned and
  stored under \<^verbatim>\<open>ome_metadata\<close>.
\<close>

theorem first_access_uses_last_ngff:
  assumes "self ''ome_metadata'' = None \<or> self ''ome_metadata'' = Some PNone"
    and "self ''representations'' = Some (PReps a)"
    and "filter (\<lambda>rep. rep_type rep = Some ''ome_ngff'') (h a) \<noteq> []"
    and "urlparse lib (rep_uri (last (filter (\<lambda>rep. rep_type rep = Some ''ome_ngff'') (h a))))
         = Inr parsed_url"
    and "u = urlunparse lib
               (scheme parsed_url, netloc parsed_url,
                path_str lib
                  (path_truediv lib (path_parent lib (path_of lib (path parsed_url)))
                     ''OME/METADATA.ome.xml''),
                None, None, None)"
  shows "ome_metadata lib h self log =
     (case requests_get lib u of
        Inl e \<Rightarrow> (Inl e, self, log @ [u])
      | Inr r \<Rightarrow>
          if status_code r = 200 then
            (case from_xml lib (content r) ''lxml'' False of
               Inl e \<Rightarrow> (Inl e, self, log @ [u])
             | Inr m \<Rightarrow> (Inr (POME m), self(''ome_metadata'' \<mapsto> POME m), log @ [u]))
          else (Inl AssertionError, self, log @ [u]))"
proof -
  from assms(4) assms(5)
  have "ome_metadata_uri_of lib (last (filter (\<lambda>rep. rep_type rep = Some ''ome_ngff'') (h a)))
        = Inr u"
    by (simp add: ome_metadata_uri_of_def)
  with ome_metadata_first_access[of self a h lib log, OF assms(1) assms(2) assms(3)]
  show ?thesis
    by (simp add: ome_xml_url_parse_def split: sum.splits)
qed

theorem first_access_uses_last_ngff_witness:
  "two_ngff_image ''ome_metadata'' = None
   \<and> two_ngff_image ''representations'' = Some (PReps (Suc 0))
   \<and> demo_heap (Suc 0) = [ngff_a, raw_rep, ngff_b]
   \<and> ome_metadata demo_lib demo_heap two_ngff_image []
     = (Inr (POME (OME ''<OME b/>'')),
        two_ngff_image(''ome_metadata'' \<mapsto> POME (OME ''<OME b/>'')),
        [''https://example.org/b.zarr/OME/METADATA.ome.xml''])"
proof -
  have p: "urlparse demo_lib
             (rep_uri (last (filter (\<lambda>rep. rep_type rep = Some ''ome_ngff'') (demo_heap (Suc 0)))))
           = Inr \<lparr>scheme = ''https'', netloc = ''example.org'', path = ''/b.zarr/0'',
                  params = [], query = [], fragment = []\<rparr>"
    unfolding demo_ngff_filter by (simp add: demo_lib_def demo_urlparse_def ngff_b_def)
  have u: "''https://example.org/b.zarr/OME/METADATA.ome.xml''
           = urlunparse demo_lib
               (scheme \<lparr>scheme = ''https'', netloc = ''example.org'', path = ''/b.zarr/0'',
                        params = [], query = [], fragment = []\<rparr>,
                netloc \<lparr>scheme = ''https'', netloc = ''example.org'', path = ''/b.zarr/0'',
                        params = [], query = [], fragment = []\<rparr>,
                path_str demo_lib
                  (path_truediv demo_lib
                     (path_parent demo_lib
                        (path_of demo_lib
                           (path \<lparr>scheme = ''https'', netloc = ''example.org'',
                                  path = ''/b.zarr/0'', params = [], query = [],
                                  fragment = []\<rparr>)))
                     ''OME/METADATA.ome.xml''),
                None, None, None)"
    by (simp add: demo_lib_def)
  have g: "requests_get demo_lib ''https://example.org/b.zarr/OME/METADATA.ome.xml''
           = Inr \<lparr>status_code = 200, content = ''<OME b/>''\<rparr>"
    by (simp add: demo_lib_def demo_requests_get_def)
  have x: "from_xml demo_lib ''<OME b/>'' ''lxml'' False = Inr (OME ''<OME b/>'')"
    by (simp add: demo_lib_def)
  from first_access_uses_last_ngff[of two_ngff_image "Suc 0" demo_heap demo_lib _ _ "[]",
      OF disjI1[OF image_simps(4)] image_simps(3) demo_ngff_present p u]
  have "ome_metadata demo_lib demo_heap two_ngff_image []
     = (Inr (POME (OME ''<OME b/>'')),
        two_ngff_image(''ome_metadata'' \<mapsto> POME (OME ''<OME b/>'')),
        [''https://example.org/b.zarr/OME/METADATA.ome.xml''])"
    by (simp add: g x)
  with image_simps(4) image_simps(3) demo_heap_simps(2) show ?thesis by (intro conjI)
qed

text \<open>
  C4 as stated fails: on an image whose representations are, in this order, one of type
  ome_ngff at a.zarr, one of type raw and one of type ome_ngff at b.zarr, the first access
  requests the metadata document of b.zarr, the last one, and not that of a.zarr.
\<close>

theorem first_ngff_not_used_counterexample:
  "two_ngff_image ''ome_metadata'' = None
   \<and> two_ngff_image ''representations'' = Some (PReps (Suc 0))
   \<and> demo_heap (Suc 0) = [ngff_a, raw_rep, ngff_b]
   \<and> rep_type ngff_a = Some ''ome_ngff''
   \<and> ome_metadata_uri_of demo_lib ngff_a
     = Inr ''https://example.org/a.zarr/OME/METADATA.ome.xml''
   \<and> fst (ome_metadata demo_lib demo_heap two_ngff_image []) = Inr (POME (OME ''<OME b/>''))
   \<and> snd (snd (ome_metadata demo_lib demo_heap two_ngff_image []))
     = [''https://example.org/b.zarr/OME/METADATA.ome.xml'']"
  by (simp add: image_simps demo_heap_simps rep_type_simps demo_uri_a ome_demo_two)

text \<open>
  C5, as amended. On an image with no representation of type ome_ngff, the accessor makes
  no request and returns what the instance dictionary holds under \<^verbatim>\<open>ome_metadata\<close>. That is
  None when nothing, or None, is stored there, as it is on a newly constructed image.
\<close>

theorem no_ngff_no_fetch:
  assumes "self ''representations'' = Some (PReps a)"
    and "filter (\<lambda>rep. rep_type rep = Some ''ome_ngff'') (h a) = []"
  shows "ome_metadata lib h self log = (Inr (dict_get self ''ome_metadata'' PNone), self, log)
       \<and> (self ''ome_metadata'' = None \<or> self ''ome_metadata'' = Some PNone \<longrightarrow>
            ome_metadata lib h self log = (Inr PNone, self, log))
       \<and> (self = new_BIAImage ident accession_id name original_relpath dimensions a attributes
            \<longrightarrow> ome_metadata lib h self log = (Inr PNone, self, log))"
proof -
  have r: "ome_metadata lib h self log = (Inr (dict_get self ''ome_metadata'' PNone), self, log)"
    by (simp add: ome_metadata_def Let_def assms ngff_representations_def)
  have n: "new_BIAImage ident accession_id name original_relpath dimensions a attributes
             ''ome_metadata'' = None"
    by (simp add: new_BIAImage_def)
  from r n show ?thesis
    by (auto simp: dict_get_def)
qed

theorem no_ngff_no_fetch_witness:
  "demo_image ''representations'' = Some (PReps 0)
   \<and> filter (\<lambda>rep. rep_type rep = Some ''ome_ngff'') (demo_heap 0) = []
   \<and> demo_image ''ome_metadata'' = None
   \<and> demo_image = new_BIAImage ''IM1'' (Some ''S-BIAD1'') None ''a.png'' None 0 []
   \<and> ome_metadata demo_lib demo_heap demo_image [] = (Inr PNone, demo_image, [])"
proof -
  note w = no_ngff_no_fetch[of demo_image 0 demo_heap demo_lib "[]" "''IM1''" "Some ''S-BIAD1''"
      None "''a.png''" None "[]", OF image_simps(1) demo_ngff_filter(2)]
  from w[THEN conjunct2, THEN conjunct1, rule_format, OF disjI1[OF image_simps(2)]]
  have a: "ome_metadata demo_lib demo_heap demo_image [] = (Inr PNone, demo_image, [])" .
  from w[THEN conjunct2, THEN conjunct2, rule_format, OF demo_image_def]
  have "ome_metadata demo_lib demo_heap demo_image [] = (Inr PNone, demo_image, [])" .
  with image_simps(1) demo_ngff_filter(2) image_simps(2) demo_image_def show ?thesis
    by (intro conjI)
qed

text \<open>
  C5 as stated fails: after a merge that applied an image annotation named ome_metadata,
  the image has no representation of type ome_ngff and the accessor returns the
  annotation's value, not None.
\<close>

theorem no_ngff_returns_annotation_counterexample:
  "load_and_annotate_study cached_env ''S-BIAD1'' = Inr (cached_merged, demo_merged_heap)
   \<and> cached_merged ''images'' = Some (PImages [(''IM1'', cached_merged_image)])
   \<and> cached_merged_image ''representations'' = Some (PReps 0)
   \<and> demo_merged_heap 0 = [raw_rep, thumbnail_rep, raw_rep]
   \<and> rep_type raw_rep = Some ''raw''
   \<and> rep_type thumbnail_rep = Some ''thumbnail''
   \<and> fst (ome_metadata demo_lib demo_merged_heap cached_merged_image [])
     = Inr (PStr ''from annotation'')
   \<and> fst (ome_metadata demo_lib demo_merged_heap cached_merged_image []) \<noteq> Inr PNone"
proof -
  have "ome_metadata demo_lib demo_merged_heap cached_merged_image []
        = (Inr (PStr ''from annotation''), cached_merged_image, [])"
    by (rule ome_metadata_cached[of cached_merged_image "PStr ''from annotation''",
          OF cached_merged_image_simps(2)]) simp
  then have "fst (ome_metadata demo_lib demo_merged_heap cached_merged_image [])
             = Inr (PStr ''from annotation'')"
    "fst (ome_metadata demo_lib demo_merged_heap cached_merged_image []) \<noteq> Inr PNone"
    by simp_all
  with load_cached cached_merged_images cached_merged_image_simps(1) demo_merged_heap_simps(1)
    rep_type_simps(3) rep_type_simps(4)
  show ?thesis by (intro conjI)
qed

text \<open>
  C6, as amended. On an image with a representation of type ome_ngff, an access that
  returns a value has made at most one request, and every later access returns the same
  value, leaves the object as it is and makes no request, however many accesses follow.
  An access that raises, as it does when the request fails, stores nothing, so that the
  next access starts again.
\<close>

theorem ome_metadata_computed_once:
  assumes "self ''representations'' = Some (PReps a)"
    and "filter (\<lambda>rep. rep_type rep = Some ''ome_ngff'') (h a) \<noteq> []"
    and "ome_metadata lib h self log = (Inr m, self1, log1)"
  shows "length log1 \<le> length log + 1
       \<and> (\<forall>n. access_times lib h n self1 log1 = (replicate n (Inr m), self1, log1))
       \<and> (\<forall>n. access_times lib h (Suc n) self log = (replicate (Suc n) (Inr m), self1, log1))
       \<and> (\<forall>e self2 log2. ome_metadata lib2 h2 obj log0 = (Inl e, self2, log2) \<longrightarrow> self2 = obj)"
proof -
  from ome_metadata_Inr[OF assms] have c: "self1 ''ome_metadata'' = Some m" "m \<noteq> PNone"
    and l: "length log1 \<le> length log + 1"
    by simp_all
  have a: "access_times lib h n self1 log1 = (replicate n (Inr m), self1, log1)" for n
    by (rule access_times_cached[of self1 m, OF c])
  have "access_times lib h (Suc n) self log = (replicate (Suc n) (Inr m), self1, log1)" for n
    by (simp add: assms(3) a)
  with l a ome_metadata_Inl[of lib2 h2 obj log0] show ?thesis by blast
qed

theorem ome_metadata_computed_once_witness:
  "two_ngff_image ''representations'' = Some (PReps (Suc 0))
   \<and> filter (\<lambda>rep. rep_type rep = Some ''ome_ngff'') (demo_heap (Suc 0)) \<noteq> []
   \<and> access_times demo_lib demo_heap (Suc (Suc (Suc 0))) two_ngff_image []
     = ([Inr (POME (OME ''<OME b/>'')), Inr (POME (OME ''<OME b/>'')),
         Inr (POME (OME ''<OME b/>''))],
        two_ngff_image(''ome_metadata'' \<mapsto> POME (OME ''<OME b/>'')),
        [''https://example.org/b.zarr/OME/METADATA.ome.xml''])
   \<and> snd (ome_metadata down_lib demo_heap two_ngff_image [])
     = (two_ngff_image, [''https://example.org/b.zarr/OME/METADATA.ome.xml''])"
proof -
  note w = ome_metadata_computed_once[of two_ngff_image "Suc 0" demo_heap demo_lib "[]" _ _ _
      down_lib demo_heap two_ngff_image "[]", OF image_simps(3) demo_ngff_present ome_demo_two]
  from w[THEN conjunct2, THEN conjunct2, THEN conjunct1, rule_format, of "Suc (Suc 0)"]
  have t: "access_times demo_lib demo_heap (Suc (Suc (Suc 0))) two_ngff_image []
     = ([Inr (POME (OME ''<OME b/>'')), Inr (POME (OME ''<OME b/>'')),
         Inr (POME (OME ''<OME b/>''))],
        two_ngff_image(''ome_metadata'' \<mapsto> POME (OME ''<OME b/>'')),
        [''https://example.org/b.zarr/OME/METADATA.ome.xml''])"
    by simp
  from w[THEN conjunct2, THEN conjunct2, THEN conjunct2, rule_format,
      OF ome_down_two[of "[]"]]
  have "two_ngff_image = two_ngff_image" .
  then have f: "snd (ome_metadata down_lib demo_heap two_ngff_image [])
     = (two_ngff_image, [''https://example.org/b.zarr/OME/METADATA.ome.xml''])"
    by (simp add: ome_down_two)
  from image_simps(3) demo_ngff_present t f show ?thesis by (intro conjI)
qed

text \<open>
  C6 as stated fails: on an image with a representation of type ome_ngff and a server that
  answers 404, two accesses in a row both raise AssertionError and make two requests.
\<close>

theorem fetch_repeated_after_failure_counterexample:
  "two_ngff_image ''representations'' = Some (PReps (Suc 0))
   \<and> demo_heap (Suc 0) = [ngff_a, raw_rep, ngff_b]
   \<and> rep_type ngff_b = Some ''ome_ngff''
   \<and> access_times down_lib demo_heap (Suc (Suc 0)) two_ngff_image []
     = ([Inl AssertionError, Inl AssertionError], two_ngff_image,
        [''https://example.org/b.zarr/OME/METADATA.ome.xml'',
         ''https://example.org/b.zarr/OME/METADATA.ome.xml''])"
  by (simp add: image_simps demo_heap_simps rep_type_simps ome_down_two)

text \<open>
  C10. An image annotation named ome_metadata shadows the metadata. When
  \<^verbatim>\<open>load_and_annotate_study\<close> returns and the annotations of an image contain the key
  ome_metadata, every access of the accessor on the returned image returns the value of
  the last such annotation, whatever the heap and the attribute \<^verbatim>\<open>representations\<close> hold,
  and makes no request.
\<close>

theorem annotation_named_ome_metadata_is_returned:
  assumes "load_and_annotate_study env acc = Inr (s', h')"
    and "s' ''images'' = Some (PImages imgs')"
    and "(iid, img') \<in> set imgs'"
    and "get_image_annotations env acc iid = Inr ias"
    and "''ome_metadata'' \<in> ia_key ` set ias"
    and "v = ia_value (last (filter (\<lambda>a. ia_key a = ''ome_metadata'') ias))"
  shows "ome_metadata lib h img' log = (Inr (PStr v), img', log)
       \<and> (\<forall>r. ome_metadata lib h (img'(''representations'' := r)) log
               = (Inr (PStr v), img'(''representations'' := r), log))
       \<and> (\<forall>n. access_times lib h n img' log = (replicate n (Inr (PStr v)), img', log))"
proof -
  from load_image_annotation_last[OF assms(1) assms(2) assms(3) assms(4) assms(5)] assms(6)
  have c: "img' ''ome_metadata'' = Some (PStr v)" by simp
  have n: "PStr v \<noteq> PNone" by simp
  have "(img'(''representations'' := r)) ''ome_metadata'' = Some (PStr v)" for r
    using c by simp
  from ome_metadata_cached[of "img'(''representations'' := r)" "PStr v" lib h log for r, OF this n]
  have "ome_metadata lib h (img'(''representations'' := r)) log
        = (Inr (PStr v), img'(''representations'' := r), log)" for r .
  with ome_metadata_cached[of img' "PStr v" lib h log, OF c n]
    access_times_cached[of img' "PStr v" lib h _ log, OF c n]
  show ?thesis by blast
qed

theorem annotation_named_ome_metadata_is_returned_witness:
  "load_and_annotate_study cached_env ''S-BIAD1'' = Inr (cached_merged, demo_merged_heap)
   \<and> cached_merged ''images'' = Some (PImages [(''IM1'', cached_merged_image)])
   \<and> ome_metadata demo_lib demo_merged_heap cached_merged_image []
     = (Inr (PStr ''from annotation''), cached_merged_image, [])
   \<and> access_times demo_lib demo_merged_heap (Suc (Suc 0)) cached_merged_image []
     = ([Inr (PStr ''from annotation''), Inr (PStr ''from annotation'')],
        cached_merged_image, [])"
proof -
  have m: "(''IM1'', cached_merged_image) \<in> set [(''IM1'', cached_merged_image)]" by simp
  have k: "''ome_metadata'' \<in> ia_key ` set
             [\<lparr>ia_accession_id = ''S-BIAD1'', ia_image_id = ''IM1'',
               ia_key = ''ome_metadata'', ia_value = ''from annotation''\<rparr>]"
    by simp
  have v: "''from annotation'' = ia_value (last (filter (\<lambda>a. ia_key a = ''ome_metadata'')
             [\<lparr>ia_accession_id = ''S-BIAD1'', ia_image_id = ''IM1'',
               ia_key = ''ome_metadata'', ia_value = ''from annotation''\<rparr>]))"
    by simp
  note w = annotation_named_ome_metadata_is_returned[of cached_env "''S-BIAD1''" cached_merged
      demo_merged_heap "[(''IM1'', cached_merged_image)]" "''IM1''" cached_merged_image _
      "''from annotation''" demo_lib demo_merged_heap "[]",
      OF load_cached cached_merged_images m cached_env_simps(3) k v]
  from w[THEN conjunct2, THEN conjunct2, rule_format, of "Suc (Suc 0)"]
  have "access_times demo_lib demo_merged_heap (Suc (Suc 0)) cached_merged_image []
     = ([Inr (PStr ''from annotation''), Inr (PStr ''from annotation'')],
        cached_merged_image, [])"
    by simp
  with load_cached cached_merged_images w[THEN conjunct1] show ?thesis by (intro conjI)
qed




end
